theory Spec2Isabelle
  imports Main
begin

section \<open>Constants (config/constants.js)\<close>

definition DAILY_QUOTA_LIMIT :: int where
  "DAILY_QUOTA_LIMIT = 10000"

definition SAFE_QUOTA_LIMIT :: int where
  "SAFE_QUOTA_LIMIT = 9000"

text \<open>\<open>YOUTUBE_API.COSTS\<close>: the object literal, read by key.\<close>

definition COSTS :: "string \<Rightarrow> int option" where
  "COSTS = map_of [(''SEARCH'', 100), (''VIDEO_LIST'', 1), (''CHAT_LIST'', 5), (''CHAT_INSERT'', 50)]"

definition STREAM_CHECK :: int where
  "STREAM_CHECK = 45 * 60 * 1000"

definition CONTEXT_CLEANUP :: int where
  "CONTEXT_CLEANUP = 30 * 60 * 1000"

definition MIN_POLL_INTERVAL :: int where
  "MIN_POLL_INTERVAL = 12000"

definition MAX_BACKOFF :: int where
  "MAX_BACKOFF = 300000"

section \<open>JavaScript helpers\<close>

text \<open>
  \<open>String.prototype.toUpperCase\<close> on the ASCII letters; every other character is kept.
  Operation names at all call sites are ASCII.
\<close>

definition toUpperCase_char :: "char \<Rightarrow> char" where
  "toUpperCase_char c =
     (case map_of (zip ''abcdefghijklmnopqrstuvwxyz'' ''ABCDEFGHIJKLMNOPQRSTUVWXYZ'') c of
        Some u \<Rightarrow> u | None \<Rightarrow> c)"

definition toUpperCase :: "string \<Rightarrow> string" where
  "toUpperCase s = map toUpperCase_char s"

text \<open>\<open>v || d\<close> on a number that may be undefined: undefined and 0 are falsy.\<close>

definition js_or :: "int option \<Rightarrow> int \<Rightarrow> int" where
  "js_or v d = (case v of None \<Rightarrow> d | Some x \<Rightarrow> if x = 0 then d else x)"

text \<open>\<open>xs.slice(-n)\<close>: the last \<open>n\<close> elements, all of them when there are fewer.\<close>

definition slice_last :: "nat \<Rightarrow> 'a list \<Rightarrow> 'a list" where
  "slice_last n xs = drop (length xs - n) xs"

text \<open>\<open>s.includes(p)\<close>: \<open>p\<close> occurs in \<open>s\<close> as a contiguous substring.\<close>

fun str_includes :: "string \<Rightarrow> string \<Rightarrow> bool" where
  "str_includes [] p = (p = [])"
| "str_includes (c # cs) p = (take (length p) (c # cs) = p \<or> str_includes cs p)"

section \<open>QuotaManager (utils/quotaManager.js)\<close>

text \<open>
  Instants are milliseconds since the epoch (\<open>Date.now()\<close>, \<open>Date.getTime()\<close>), as
  \<open>int\<close>. Every method that reads the clock takes the reading as its argument \<open>now\<close>.
\<close>

record quota_entry =
  qe_timestamp :: int
  qe_operation :: string
  qe_cost :: int
  qe_success :: bool

record quota_manager =
  dailyQuotaUsed :: int
  quotaResetTime :: int
  quotaHistory :: "quota_entry list"

text \<open>
  Local time is the host's: \<open>Date\<close> converts between an instant and local wall-clock
  time with the two operations ECMAScript calls \<open>LocalTime\<close> (instant to local time
  value) and \<open>UTC\<close> (local time value to instant); both follow the host's time zone
  rules, daylight saving included. They are taken as given.
\<close>

record zone =
  LocalTime :: "int \<Rightarrow> int"
  UTC :: "int \<Rightarrow> int"

text \<open>
  \<open>getNextQuotaReset\<close>: \<open>tomorrow.setDate(tomorrow.getDate() + 1)\<close> moves the local time
  value one day on (same time of day) and converts back; \<open>tomorrow.setHours(0, 0, 0, 0)\<close>
  takes the local time value of the result down to the start of its day and converts
  back. A day of local time value is 86400000 ms.
\<close>

definition getNextQuotaReset :: "zone \<Rightarrow> int \<Rightarrow> int" where
  "getNextQuotaReset z now =
     (let tomorrow = UTC z (LocalTime z now + 86400000)
      in UTC z (LocalTime z tomorrow div 86400000 * 86400000))"

text \<open>A host on UTC, and a host whose zone goes from UTC-4 to UTC-5 at a given instant.\<close>

definition utc_zone :: zone where
  "utc_zone = \<lparr>LocalTime = (\<lambda>t. t), UTC = (\<lambda>t. t)\<rparr>"

definition fall_back_zone :: "int \<Rightarrow> zone" where
  "fall_back_zone switch =
     \<lparr>LocalTime = (\<lambda>t. if t < switch then t - 14400000 else t - 18000000),
      UTC = (\<lambda>t. if t + 14400000 < switch then t + 14400000 else t + 18000000)\<rparr>"

definition new_QuotaManager :: "zone \<Rightarrow> int \<Rightarrow> quota_manager" where
  "new_QuotaManager z now =
     \<lparr>dailyQuotaUsed = 0, quotaResetTime = getNextQuotaReset z now, quotaHistory = []\<rparr>"

definition checkQuotaReset :: "zone \<Rightarrow> quota_manager \<Rightarrow> int \<Rightarrow> quota_manager" where
  "checkQuotaReset z q now =
     (if now \<ge> quotaResetTime q
      then q\<lparr>dailyQuotaUsed := 0, quotaResetTime := getNextQuotaReset z now, quotaHistory := []\<rparr>
      else q)"

text \<open>\<open>constants.YOUTUBE_API.COSTS[operationType.toUpperCase()] || 1\<close>\<close>

definition apiCost :: "string \<Rightarrow> int" where
  "apiCost operationType = js_or (COSTS (toUpperCase operationType)) 1"

text \<open>\<open>canMakeApiCall\<close> returns its answer and the ledger as the reset check left it.\<close>

definition canMakeApiCall :: "zone \<Rightarrow> quota_manager \<Rightarrow> string \<Rightarrow> int \<Rightarrow> bool \<times> quota_manager" where
  "canMakeApiCall z q operationType now =
     (let q' = checkQuotaReset z q now;
          cost = apiCost operationType;
          projectedUsage = dailyQuotaUsed q' + cost
      in if projectedUsage > SAFE_QUOTA_LIMIT then (False, q') else (True, q'))"

definition trackApiCall :: "quota_manager \<Rightarrow> string \<Rightarrow> bool \<Rightarrow> int \<Rightarrow> quota_manager" where
  "trackApiCall q operationType success now =
     (let cost = apiCost operationType;
          q1 = (if success
                then q\<lparr>dailyQuotaUsed := dailyQuotaUsed q + cost,
                       quotaHistory := quotaHistory q @
                         [\<lparr>qe_timestamp = now, qe_operation = operationType,
                           qe_cost = cost, qe_success = True\<rparr>]\<rparr>
                else q\<lparr>quotaHistory := quotaHistory q @
                         [\<lparr>qe_timestamp = now, qe_operation = operationType,
                           qe_cost = 0, qe_success = False\<rparr>]\<rparr>)
      in if length (quotaHistory q1) > 100
         then q1\<lparr>quotaHistory := slice_last 100 (quotaHistory q1)\<rparr>
         else q1)"

subsection \<open>Sequences of ledger calls\<close>

text \<open>
  A call on the ledger: \<open>canMakeApiCall\<close>, \<open>trackApiCall\<close>, or the hourly timer's
  \<open>checkQuotaReset\<close>.
\<close>

datatype quota_call =
    Admit string int
  | Record string bool int
  | Sweep int

fun quota_step :: "zone \<Rightarrow> quota_manager \<Rightarrow> quota_call \<Rightarrow> quota_manager" where
  "quota_step z q (Admit operationType now) = snd (canMakeApiCall z q operationType now)"
| "quota_step z q (Record operationType success now) = trackApiCall q operationType success now"
| "quota_step z q (Sweep now) = checkQuotaReset z q now"

definition run_quota :: "zone \<Rightarrow> quota_manager \<Rightarrow> quota_call list \<Rightarrow> quota_manager" where
  "run_quota z q calls = foldl (quota_step z) q calls"

text \<open>
  \<open>gated z fresh q calls\<close>: in the run of \<open>calls\<close> from ledger \<open>q\<close>, every successful
  record is of an operation that an admit has answered true for since the last successful
  record. \<open>fresh\<close> lists the operations admitted since then. Other admits, failed records
  and the timer's reset check may fall between an admit and its record.
\<close>

fun gated :: "zone \<Rightarrow> string list \<Rightarrow> quota_manager \<Rightarrow> quota_call list \<Rightarrow> bool" where
  "gated z fresh q [] = True"
| "gated z fresh q (Admit operationType now # calls) =
     gated z (if fst (canMakeApiCall z q operationType now) then operationType # fresh else fresh)
       (snd (canMakeApiCall z q operationType now)) calls"
| "gated z fresh q (Record operationType success now # calls) =
     ((if success then operationType \<in> set fresh else True) \<and>
      gated z (if success then [] else fresh) (trackApiCall q operationType success now) calls)"
| "gated z fresh q (Sweep now # calls) = gated z fresh (checkQuotaReset z q now) calls"

text \<open>
  \<open>matched z waiting q calls\<close>: every successful record has an earlier admit of its own, of
  the same operation, that returned true. \<open>waiting\<close> lists the admitted operations not yet
  recorded; a successful record takes its operation off the list.
\<close>

fun matched :: "zone \<Rightarrow> string list \<Rightarrow> quota_manager \<Rightarrow> quota_call list \<Rightarrow> bool" where
  "matched z waiting q [] = True"
| "matched z waiting q (Admit operationType now # calls) =
     matched z (if fst (canMakeApiCall z q operationType now) then operationType # waiting else waiting)
       (snd (canMakeApiCall z q operationType now)) calls"
| "matched z waiting q (Record operationType success now # calls) =
     ((if success then operationType \<in> set waiting else True) \<and>
      matched z (if success then remove1 operationType waiting else waiting)
        (trackApiCall q operationType success now) calls)"
| "matched z waiting q (Sweep now # calls) = matched z waiting (checkQuotaReset z q now) calls"

text \<open>
  The invariant carried along a gated run: the counter is within the ceiling, and so is the
  counter plus the cost of each operation admitted since the last successful record.
\<close>

definition ledger_inv :: "string list \<Rightarrow> quota_manager \<Rightarrow> bool" where
  "ledger_inv fresh q =
     (0 \<le> dailyQuotaUsed q \<and> dailyQuotaUsed q \<le> SAFE_QUOTA_LIMIT \<and>
      (\<forall>operationType \<in> set fresh. dailyQuotaUsed q + apiCost operationType \<le> SAFE_QUOTA_LIMIT))"

text \<open>
  A concrete series of calls: the ledger is charged to 8950 by eighty-nine searches and a
  reply, each recorded right after its admit. Then a reply is admitted, and while its
  request is under way a poll is admitted, answered and recorded; the reply is recorded
  last.
\<close>

definition overrun_calls :: "quota_call list" where
  "overrun_calls =
     concat (replicate 89 [Admit ''SEARCH'' 2000, Record ''SEARCH'' True 2100]) @
     [Admit ''CHAT_INSERT'' 3000, Record ''CHAT_INSERT'' True 3100,
      Admit ''CHAT_INSERT'' 4000, Admit ''CHAT_LIST'' 4001,
      Record ''CHAT_LIST'' True 4002, Record ''CHAT_INSERT'' True 4003]"

section \<open>RateLimiter (utils/rateLimiter.js)\<close>

text \<open>The constructor's argument: each field may be absent.\<close>

record rate_limits =
  cfg_maxResponsesPerHour :: "int option"
  cfg_globalCooldown :: "int option"
  cfg_userCooldown :: "int option"

record rate_limiter =
  maxResponsesPerHour :: int
  globalCooldown :: int
  userCooldown :: int
  lastGlobalResponse :: int
  userResponses :: "string \<Rightarrow> int option"
  hourlyResponses :: "int list"

definition new_RateLimiter :: "rate_limits \<Rightarrow> rate_limiter" where
  "new_RateLimiter config =
     \<lparr>maxResponsesPerHour = js_or (cfg_maxResponsesPerHour config) 30,
      globalCooldown = js_or (cfg_globalCooldown config) 8000,
      userCooldown = js_or (cfg_userCooldown config) 30000,
      lastGlobalResponse = 0,
      userResponses = Map.empty,
      hourlyResponses = []\<rparr>"

text \<open>The object \<open>canRespond\<close> returns: \<open>{ allowed, reason }\<close>, the reason absent when allowed.\<close>

record verdict =
  allowed :: bool
  reason :: "string option"

text \<open>
  \<open>getHourlyResponseCount\<close> replaces the list by its entries inside the trailing hour and
  returns the length of what is left.
\<close>

definition getHourlyResponseCount :: "rate_limiter \<Rightarrow> int \<Rightarrow> nat \<times> rate_limiter" where
  "getHourlyResponseCount r now =
     (let oneHourAgo = now - 3600000;
          r' = r\<lparr>hourlyResponses := filter (\<lambda>time. time > oneHourAgo) (hourlyResponses r)\<rparr>
      in (length (hourlyResponses r'), r'))"

text \<open>
  \<open>canRespond\<close>: the three checks in the order of the source. \<open>lastUserResponse && ...\<close>
  is false for an absent entry and for the number 0. The clock reading \<open>now\<close> of the call
  is also the one \<open>getHourlyResponseCount\<close> takes inside it.
\<close>

definition canRespond :: "rate_limiter \<Rightarrow> string \<Rightarrow> int \<Rightarrow> verdict \<times> rate_limiter" where
  "canRespond r userId now =
     (if now - lastGlobalResponse r < globalCooldown r
      then (\<lparr>allowed = False, reason = Some ''global_cooldown''\<rparr>, r)
      else
        let (n, r1) = getHourlyResponseCount r now in
        if int n \<ge> maxResponsesPerHour r1
        then (\<lparr>allowed = False, reason = Some ''hourly_limit''\<rparr>, r1)
        else
          (case userResponses r1 userId of
             None \<Rightarrow> (\<lparr>allowed = True, reason = None\<rparr>, r1)
           | Some lastUserResponse \<Rightarrow>
               if lastUserResponse \<noteq> 0 \<and> now - lastUserResponse < userCooldown r1
               then (\<lparr>allowed = False, reason = Some ''user_cooldown''\<rparr>, r1)
               else (\<lparr>allowed = True, reason = None\<rparr>, r1)))"

definition recordResponse :: "rate_limiter \<Rightarrow> string \<Rightarrow> int \<Rightarrow> rate_limiter" where
  "recordResponse r userId now =
     r\<lparr>lastGlobalResponse := now,
       userResponses := (userResponses r)(userId \<mapsto> now),
       hourlyResponses := hourlyResponses r @ [now]\<rparr>"

text \<open>A series of \<open>recordResponse\<close> calls, each with its author and instant.\<close>

definition recordAll :: "rate_limiter \<Rightarrow> (string \<times> int) list \<Rightarrow> rate_limiter" where
  "recordAll r replies = foldl (\<lambda>r' (userId, t). recordResponse r' userId t) r replies"

text \<open>A series of \<open>canRespond\<close> calls at one instant, one per author; the answers are dropped.\<close>

definition checkAll :: "rate_limiter \<Rightarrow> string list \<Rightarrow> int \<Rightarrow> rate_limiter" where
  "checkAll r userIds now = foldl (\<lambda>r' userId. snd (canRespond r' userId now)) r userIds"

text \<open>
  A concrete run used below: the limiter with every default, and thirty replies to one
  viewer, ten seconds apart.
\<close>

definition default_limits :: rate_limits where
  "default_limits = \<lparr>cfg_maxResponsesPerHour = None, cfg_globalCooldown = None, cfg_userCooldown = None\<rparr>"

definition thirty_replies :: "(string \<times> int) list" where
  "thirty_replies = map (\<lambda>i. (''viewer'', 1700000000000 + 10000 * int i)) [0..<30]"

section \<open>Chat context (bot/SmartYouTubeChatBot.js)\<close>

text \<open>\<open>constants.CHAT_MOODS\<close> and \<open>constants.GAME_STATES\<close>: the string each key stands for.\<close>

definition CHAT_MOODS_NEUTRAL :: string where "CHAT_MOODS_NEUTRAL = ''neutral''"
definition CHAT_MOODS_EXCITED :: string where "CHAT_MOODS_EXCITED = ''excited''"
definition CHAT_MOODS_FRUSTRATED :: string where "CHAT_MOODS_FRUSTRATED = ''frustrated''"
definition CHAT_MOODS_SUPPORTIVE :: string where "CHAT_MOODS_SUPPORTIVE = ''supportive''"
definition CHAT_MOODS_HYPED :: string where "CHAT_MOODS_HYPED = ''hyped''"
definition GAME_STATES_UNKNOWN :: string where "GAME_STATES_UNKNOWN = ''unknown''"

text \<open>The fields of a message analysis that the context reads.\<close>

record analysis =
  an_sentiment :: string
  an_intent :: string
  an_gameRelated :: bool

text \<open>
  The second argument of \<open>updateContext\<close>: the stream information of a \<open>streamStarted\<close>
  event (video id, title), or \<open>{ author, text, analysis }\<close> of a received message.
\<close>

datatype event_data =
    StreamInfo string string
  | MessageData string string analysis

text \<open>\<open>data.analysis\<close>: undefined on an object without that field.\<close>

fun data_analysis :: "event_data \<Rightarrow> analysis option" where
  "data_analysis (StreamInfo v t) = None"
| "data_analysis (MessageData a t an) = Some an"

fun data_author :: "event_data \<Rightarrow> string" where
  "data_author (StreamInfo v t) = []"
| "data_author (MessageData a t an) = a"

record event_entry =
  ev_timestamp :: int
  ev_type :: string
  ev_data :: event_data

record message_entry =
  msg_timestamp :: int
  msg_author :: string
  msg_sentiment :: string
  msg_intent :: string
  msg_gameRelated :: bool

record chat_context =
  currentGame :: "string option"
  gameState :: string
  chatMood :: string
  streamerMood :: string
  messageHistory :: "message_entry list"
  topicHistory :: "string list"
  recentEvents :: "event_entry list"

definition initializeContext :: chat_context where
  "initializeContext =
     \<lparr>currentGame = None, gameState = GAME_STATES_UNKNOWN, chatMood = CHAT_MOODS_NEUTRAL,
      streamerMood = CHAT_MOODS_NEUTRAL, messageHistory = [], topicHistory = [],
      recentEvents = []\<rparr>"

text \<open>\<open>updateChatMood(sentiment)\<close>: the argument is not read by the body.\<close>

definition updateChatMood :: "chat_context \<Rightarrow> string \<Rightarrow> chat_context" where
  "updateChatMood c sentiment =
     (let recentSentiments = map msg_sentiment (slice_last 10 (messageHistory c));
          positiveCount = length (filter (\<lambda>s. s = ''positive'') recentSentiments);
          negativeCount = length (filter (\<lambda>s. s = ''negative'') recentSentiments)
      in if positiveCount \<ge> 6 then c\<lparr>chatMood := CHAT_MOODS_EXCITED\<rparr>
         else if negativeCount \<ge> 6 then c\<lparr>chatMood := CHAT_MOODS_FRUSTRATED\<rparr>
         else if positiveCount \<ge> 4 then c\<lparr>chatMood := CHAT_MOODS_SUPPORTIVE\<rparr>
         else c\<lparr>chatMood := CHAT_MOODS_NEUTRAL\<rparr>)"

text \<open>
  \<open>updateContext(eventType, data)\<close>, with the clock reading \<open>timestamp\<close>. The statements
  are in the order of the source: the event is pushed and capped; then, for a received
  message with an analysis, \<open>updateChatMood\<close> is called, and after it the message is pushed
  on \<open>messageHistory\<close> and the history capped.
\<close>

definition updateContext :: "chat_context \<Rightarrow> string \<Rightarrow> event_data \<Rightarrow> int \<Rightarrow> chat_context" where
  "updateContext c eventType data timestamp =
     (let e = recentEvents c @ [\<lparr>ev_timestamp = timestamp, ev_type = eventType, ev_data = data\<rparr>];
          c1 = c\<lparr>recentEvents := (if length e > 50 then slice_last 50 e else e)\<rparr>
      in if eventType = ''messageReceived''
         then
           (case data_analysis data of
              None \<Rightarrow> c1
            | Some an \<Rightarrow>
                let c2 = updateChatMood c1 (an_sentiment an);
                    h = messageHistory c2 @
                          [\<lparr>msg_timestamp = timestamp, msg_author = data_author data,
                            msg_sentiment = an_sentiment an, msg_intent = an_intent an,
                            msg_gameRelated = an_gameRelated an\<rparr>]
                in c2\<lparr>messageHistory := (if length h > 100 then slice_last 100 h else h)\<rparr>)
         else c1)"

definition cleanupContext :: "chat_context \<Rightarrow> int \<Rightarrow> chat_context" where
  "cleanupContext c now =
     (let oneHourAgo = now - 3600000
      in c\<lparr>messageHistory := filter (\<lambda>msg. msg_timestamp msg > oneHourAgo) (messageHistory c),
           recentEvents := filter (\<lambda>event. ev_timestamp event > oneHourAgo) (recentEvents c)\<rparr>)"

text \<open>The part of \<open>cleanup()\<close> under its comment \<open>Reset context\<close>.\<close>

definition cleanup_context :: "chat_context \<Rightarrow> chat_context" where
  "cleanup_context c =
     c\<lparr>currentGame := None, gameState := GAME_STATES_UNKNOWN, chatMood := CHAT_MOODS_NEUTRAL\<rparr>"

text \<open>
  Every statement of the bot that writes \<open>this.context\<close>: \<open>updateContext\<close>, \<open>cleanup\<close>,
  \<open>cleanupContext\<close>, the owner commands \<open>!mood\<close> (writes \<open>streamerMood\<close>) and \<open>!game\<close>, and
  the game detected when a stream is found (both write \<open>currentGame\<close>).
\<close>

datatype context_op =
    UpdateContext string event_data int
  | Cleanup
  | CleanupContext int
  | SetStreamerMood string
  | SetCurrentGame "string option"

fun context_step :: "chat_context \<Rightarrow> context_op \<Rightarrow> chat_context" where
  "context_step c (UpdateContext eventType data timestamp) = updateContext c eventType data timestamp"
| "context_step c Cleanup = cleanup_context c"
| "context_step c (CleanupContext now) = cleanupContext c now"
| "context_step c (SetStreamerMood mood) = c\<lparr>streamerMood := mood\<rparr>"
| "context_step c (SetCurrentGame game) = c\<lparr>currentGame := game\<rparr>"

definition run_context :: "chat_context \<Rightarrow> context_op list \<Rightarrow> chat_context" where
  "run_context c ops = foldl context_step c ops"

text \<open>A received message of the given sentiment, as \<open>handleMessageReceived\<close> passes it on.\<close>

definition message_with :: "string \<Rightarrow> event_data" where
  "message_with sentiment =
     MessageData ''viewer'' ''hello''
       \<lparr>an_sentiment = sentiment, an_intent = ''comment'', an_gameRelated = False\<rparr>"

text \<open>Recording one message per sentiment of the list, at instants 1, 2, ... after \<open>t\<close>.\<close>

fun record_messages :: "chat_context \<Rightarrow> int \<Rightarrow> string list \<Rightarrow> chat_context" where
  "record_messages c t [] = c"
| "record_messages c t (s # ss) =
     record_messages (updateContext c ''messageReceived'' (message_with s) (t + 1)) (t + 1) ss"

text \<open>The moods that the bot assigns to \<open>chatMood\<close>.\<close>

definition mood_ok :: "chat_context \<Rightarrow> bool" where
  "mood_ok c = (chatMood c = CHAT_MOODS_NEUTRAL \<or> chatMood c = CHAT_MOODS_EXCITED \<or>
     chatMood c = CHAT_MOODS_FRUSTRATED \<or> chatMood c = CHAT_MOODS_SUPPORTIVE)"

section \<open>SmartYouTubeChatBot: session state and the poll cycle\<close>

record session_state =
  isRunning :: bool
  isMonitoring :: bool
  videoId :: "string option"
  liveChatId :: "string option"
  nextPageToken :: "string option"
  consecutiveErrors :: nat
  maxConsecutiveErrors :: nat
  lastResponseTime :: int
  startTime :: int

definition initializeState :: "int \<Rightarrow> session_state" where
  "initializeState now =
     \<lparr>isRunning = False, isMonitoring = False, videoId = None, liveChatId = None,
      nextPageToken = None, consecutiveErrors = 0, maxConsecutiveErrors = 5,
      lastResponseTime = 0, startTime = now\<rparr>"

text \<open>\<open>this.intervals\<close>: the handle of each \<open>setInterval\<close>, or null.\<close>

record interval_handles =
  streamCheck :: "nat option"
  contextCleanup :: "nat option"
  keepAlive :: "nat option"

text \<open>
  The bot: its state, its context, its components. \<open>canSendMessages\<close> is the answer of
  \<open>youtubeService.canSendMessages()\<close>, fixed by the configuration (OAuth tokens present).
\<close>

record bot =
  state :: session_state
  ctxt :: chat_context
  rateLimiter :: rate_limiter
  quotaManager :: quota_manager
  intervals :: interval_handles
  canSendMessages :: bool

definition new_bot :: "zone \<Rightarrow> int \<Rightarrow> rate_limits \<Rightarrow> bool \<Rightarrow> bot" where
  "new_bot z now limits oauth =
     \<lparr>state = initializeState now, ctxt = initializeContext,
      rateLimiter = new_RateLimiter limits, quotaManager = new_QuotaManager z now,
      intervals = \<lparr>streamCheck = None, contextCleanup = None, keepAlive = None\<rparr>,
      canSendMessages = oauth\<rparr>"

text \<open>
  What a step of the bot asks of its environment, in the order of the calls: timers set
  and cleared, events emitted, transport calls started.
\<close>

datatype effect =
    SetTimeout_pollMessages int
  | ClearInterval nat
  | Emit_messageReceived string
  | Emit_streamEnded
  | Insert_message string string
  | WebServer_stop

text \<open>Truthiness of a value that is null or a string: null and the empty string are falsy.\<close>

definition truthy :: "string option \<Rightarrow> bool" where
  "truthy v = (case v of None \<Rightarrow> False | Some s \<Rightarrow> s \<noteq> [])"

definition cleanup :: "bot \<Rightarrow> bot" where
  "cleanup b =
     b\<lparr>state := (state b)\<lparr>videoId := None, liveChatId := None, nextPageToken := None,
                           isRunning := False, consecutiveErrors := 0\<rparr>,
       ctxt := cleanup_context (ctxt b)\<rparr>"

text \<open>
  \<open>Object.values(this.intervals).forEach(interval => { if (interval) clearInterval(interval) })\<close>
\<close>

definition clearIntervals :: "interval_handles \<Rightarrow> effect list" where
  "clearIntervals iv = map ClearInterval (List.map_filter id [streamCheck iv, contextCleanup iv, keepAlive iv])"

text \<open>The farewell text (the source's text has an emoji at each end).\<close>

definition FAREWELL :: string where
  "FAREWELL = ''Bot going offline. Thanks for the great stream!''"

text \<open>
  \<open>gracefulShutdown()\<close>, as far as it runs before its first \<open>await\<close>, which is what runs
  inside the caller of \<open>stop()\<close>: the two flags are cleared, the intervals are cleared, and
  then either the farewell send is started (\<open>youtubeService.sendMessage\<close> passes the quota
  gate for \<open>CHAT_INSERT\<close> before it starts the insert call) or, with no chat or no
  credentials, the web server's stop. What follows the awaits (the web server's stop after
  a farewell, \<open>botStopped\<close>, the exit two seconds later) runs after the caller has returned.
\<close>

definition gracefulShutdown :: "zone \<Rightarrow> int \<Rightarrow> bot \<Rightarrow> bot \<times> effect list" where
  "gracefulShutdown z now b =
     (let b1 = b\<lparr>state := (state b)\<lparr>isRunning := False, isMonitoring := False\<rparr>\<rparr>;
          cleared = clearIntervals (intervals b1)
      in if truthy (liveChatId (state b1)) \<and> canSendMessages b1
         then
           (case canMakeApiCall z (quotaManager b1) ''CHAT_INSERT'' now of
              (ok, q1) \<Rightarrow>
                (b1\<lparr>quotaManager := q1\<rparr>,
                 cleared @
                 (if ok
                  then [Insert_message (case liveChatId (state b1) of Some lc \<Rightarrow> lc | None \<Rightarrow> []) FAREWELL]
                  else [])))
         else (b1, cleared @ [WebServer_stop]))"

text \<open>\<open>handleError\<close>; \<open>stop()\<close> is \<open>gracefulShutdown()\<close>.\<close>

definition handleError :: "zone \<Rightarrow> int \<Rightarrow> bot \<Rightarrow> bot \<times> effect list" where
  "handleError z now b =
     (let b1 = b\<lparr>state := (state b)\<lparr>consecutiveErrors := consecutiveErrors (state b) + 1\<rparr>\<rparr>
      in if consecutiveErrors (state b1) \<ge> maxConsecutiveErrors (state b1)
         then gracefulShutdown z now b1
         else (b1, []))"

text \<open>
  What the transport does with one \<open>liveChatMessages.list\<close> request: it answers with the
  items, the next page token and the polling interval it suggests, or it fails with an
  error message.
\<close>

datatype poll_outcome =
    Fetched "string list" "string option" "int option"
  | Failed string

text \<open>
  \<open>youtubeService.getChatMessages\<close>: the quota gate, the request, and the record of the
  call. An error is returned as its message (\<open>Inl\<close>).
\<close>

definition getChatMessages ::
    "zone \<Rightarrow> int \<Rightarrow> quota_manager \<Rightarrow> poll_outcome \<Rightarrow>
     quota_manager \<times> (string + string list \<times> string option \<times> int option)" where
  "getChatMessages z now q outcome =
     (case canMakeApiCall z q ''CHAT_LIST'' now of
        (ok, q1) \<Rightarrow>
          if \<not> ok then (q1, Inl ''Quota limit reached for chat messages'')
          else
            (case outcome of
               Fetched items token interval \<Rightarrow>
                 (trackApiCall q1 ''CHAT_LIST'' True now, Inr (items, token, interval))
             | Failed message \<Rightarrow>
                 (trackApiCall q1 ''CHAT_LIST'' False now, Inl message)))"

text \<open>
  \<open>pollMessages()\<close>, one cycle, given the clock reading and what the transport does if it
  is asked. The handler of \<open>streamEnded\<close> is \<open>cleanup\<close> and is applied here; what the
  handlers of \<open>messageReceived\<close> do is outside this function. No branch throws.
\<close>

definition pollMessages :: "zone \<Rightarrow> int \<Rightarrow> poll_outcome \<Rightarrow> bot \<Rightarrow> bot \<times> effect list" where
  "pollMessages z now outcome b =
     (if \<not> isRunning (state b) \<or> \<not> truthy (liveChatId (state b)) then (b, [])
      else
        (case canMakeApiCall z (quotaManager b) ''CHAT_LIST'' now of
           (ok, q1) \<Rightarrow>
             if \<not> ok then (b\<lparr>quotaManager := q1\<rparr>, [SetTimeout_pollMessages 60000])
             else
               (case getChatMessages z now q1 outcome of
                  (q2, Inr (messages, token, interval)) \<Rightarrow>
                    (b\<lparr>quotaManager := q2,
                       state := (state b)\<lparr>nextPageToken := token, consecutiveErrors := 0\<rparr>\<rparr>,
                     map Emit_messageReceived messages @
                     [SetTimeout_pollMessages (max (js_or interval 15000) MIN_POLL_INTERVAL)])
                | (q2, Inl message) \<Rightarrow>
                    (case handleError z now (b\<lparr>quotaManager := q2\<rparr>) of
                       (b1, effects) \<Rightarrow>
                         if str_includes message ''disabled'' \<or> str_includes message ''not found''
                         then (cleanup b1, effects @ [Emit_streamEnded])
                         else
                           (b1, effects @
                              [SetTimeout_pollMessages
                                 (min (MIN_POLL_INTERVAL * 2 ^ consecutiveErrors (state b1))
                                      MAX_BACKOFF)])))))"

text \<open>
  A series of poll cycles, each with its clock reading and the transport's behaviour; the
  effects of each cycle are kept apart.
\<close>

fun poll_run :: "zone \<Rightarrow> bot \<Rightarrow> (int \<times> poll_outcome) list \<Rightarrow> bot \<times> effect list list" where
  "poll_run z b [] = (b, [])"
| "poll_run z b ((now, outcome) # rest) =
     (case pollMessages z now outcome b of
        (b1, effects) \<Rightarrow>
          (case poll_run z b1 rest of (b2, later) \<Rightarrow> (b2, effects # later)))"

text \<open>An error message that the poll cycle treats as transient.\<close>

definition transient :: "string \<Rightarrow> bool" where
  "transient message = (\<not> str_includes message ''disabled'' \<and> \<not> str_includes message ''not found'')"

section \<open>The host's timers\<close>

text \<open>
  The functions the timers call: \<open>rateLimiter.cleanup\<close>, \<open>quotaManager.checkQuotaReset\<close>,
  the web server's keep-alive ping, the bot's stream check and \<open>cleanupContext\<close>, and
  \<open>pollMessages\<close>.
\<close>

datatype callback =
    Call_rateLimiter_cleanup
  | Call_checkQuotaReset
  | Call_keepAlive_ping
  | Call_streamCheck
  | Call_cleanupContext
  | Call_pollMessages

text \<open>
  A pending timer, and the host's table of them. \<open>setInterval\<close> and \<open>setTimeout\<close> enter a
  timer and return its handle; \<open>clearInterval\<close> takes the timer with the given handle out.
  A timer whose handle is not kept by the caller can not be cleared.
\<close>

record timer =
  timer_handle :: nat
  timer_callback :: callback
  timer_ms :: int
  timer_repeats :: bool

record host_timers =
  next_handle :: nat
  pending :: "timer list"

definition setInterval :: "host_timers \<Rightarrow> callback \<Rightarrow> int \<Rightarrow> nat \<times> host_timers" where
  "setInterval h f ms =
     (next_handle h,
      h\<lparr>next_handle := Suc (next_handle h),
        pending := pending h @
          [\<lparr>timer_handle = next_handle h, timer_callback = f, timer_ms = ms, timer_repeats = True\<rparr>]\<rparr>)"

definition setTimeout :: "host_timers \<Rightarrow> callback \<Rightarrow> int \<Rightarrow> nat \<times> host_timers" where
  "setTimeout h f ms =
     (next_handle h,
      h\<lparr>next_handle := Suc (next_handle h),
        pending := pending h @
          [\<lparr>timer_handle = next_handle h, timer_callback = f, timer_ms = ms, timer_repeats = False\<rparr>]\<rparr>)"

definition clearInterval :: "host_timers \<Rightarrow> nat \<Rightarrow> host_timers" where
  "clearInterval h n = h\<lparr>pending := filter (\<lambda>t. timer_handle t \<noteq> n) (pending h)\<rparr>"

text \<open>
  The timers set while the bot is constructed: the constructor of \<open>RateLimiter\<close> sets its
  cleanup every five minutes, the constructor of \<open>QuotaManager\<close> its reset check every
  hour. Neither keeps the handle.
\<close>

definition constructed_timers :: host_timers where
  "constructed_timers =
     snd (setInterval
            (snd (setInterval \<lparr>next_handle = 1, pending = []\<rparr> Call_rateLimiter_cleanup (5 * 60 * 1000)))
            Call_checkQuotaReset 3600000)"

text \<open>
  The timers set by \<open>start()\<close>: \<open>webServer.start()\<close> sets the keep-alive ping when a
  deployment domain is configured, and keeps no handle; \<open>startMonitoring\<close> and
  \<open>setupCleanupIntervals\<close> set the stream check and the context cleanup and keep their
  handles in \<open>this.intervals\<close>. \<open>this.intervals.keepAlive\<close> is never assigned.
\<close>

definition start_timers :: "bool \<Rightarrow> host_timers \<Rightarrow> interval_handles \<times> host_timers" where
  "start_timers domain h =
     (let h1 = (if domain then snd (setInterval h Call_keepAlive_ping (25 * 60 * 1000)) else h)
      in case setInterval h1 Call_streamCheck STREAM_CHECK of
           (sc, h2) \<Rightarrow>
             (case setInterval h2 Call_cleanupContext CONTEXT_CLEANUP of
                (cc, h3) \<Rightarrow>
                  (\<lparr>streamCheck = Some sc, contextCleanup = Some cc, keepAlive = None\<rparr>, h3)))"

text \<open>What an effect of the bot does to the table.\<close>

fun host_apply :: "host_timers \<Rightarrow> effect \<Rightarrow> host_timers" where
  "host_apply h (SetTimeout_pollMessages ms) = snd (setTimeout h Call_pollMessages ms)"
| "host_apply h (ClearInterval n) = clearInterval h n"
| "host_apply h (Emit_messageReceived m) = h"
| "host_apply h Emit_streamEnded = h"
| "host_apply h (Insert_message c t) = h"
| "host_apply h WebServer_stop = h"

text \<open>A poll timeout that fires leaves the table; it is what starts a poll cycle.\<close>

definition fire_pollMessages :: "host_timers \<Rightarrow> host_timers" where
  "fire_pollMessages h =
     h\<lparr>pending := filter (\<lambda>t. timer_callback t \<noteq> Call_pollMessages) (pending h)\<rparr>"

text \<open>The table after a series of poll cycles, given the effects of each.\<close>

definition timers_after :: "host_timers \<Rightarrow> effect list list \<Rightarrow> host_timers" where
  "timers_after h cycles =
     foldl (\<lambda>h' effects. foldl host_apply (fire_pollMessages h') effects) h cycles"

text \<open>The handles the bot holds in \<open>this.intervals\<close>.\<close>

definition held_handles :: "interval_handles \<Rightarrow> nat list" where
  "held_handles iv = List.map_filter id [streamCheck iv, contextCleanup iv, keepAlive iv]"

text \<open>
  A concrete bot used below: constructed at instant 1700000000000 on a UTC host with a
  deployment domain, started, with a stream found and its chat connected by
  \<open>connectToChat\<close>. \<open>started_timers\<close> is the host's table at that point.
\<close>

definition started_timers :: host_timers where
  "started_timers = snd (start_timers True constructed_timers)"

definition attached_bot :: bot where
  "attached_bot =
     (new_bot utc_zone 1700000000000 default_limits True)
       \<lparr>state := (initializeState 1700000000000)
                   \<lparr>isRunning := True, isMonitoring := True, videoId := Some ''video-1'',
                    liveChatId := Some ''chat-1'', consecutiveErrors := 0\<rparr>,
        intervals := fst (start_timers True constructed_timers)\<rparr>"

text \<open>The effects that schedule a poll cycle.\<close>

fun is_poll_timer :: "effect \<Rightarrow> bool" where
  "is_poll_timer (SetTimeout_pollMessages ms) = True"
| "is_poll_timer (ClearInterval h) = False"
| "is_poll_timer (Emit_messageReceived m) = False"
| "is_poll_timer Emit_streamEnded = False"
| "is_poll_timer (Insert_message c t) = False"
| "is_poll_timer WebServer_stop = False"

text \<open>
  \<open>polling_with b0 n b\<close>: \<open>b\<close> is \<open>b0\<close> with the error counter at \<open>n\<close> and a ledger whose
  counter leaves room for a chat-list call.
\<close>

definition polling_with :: "bot \<Rightarrow> nat \<Rightarrow> bot \<Rightarrow> bool" where
  "polling_with b0 n b =
     (state b = (state b0)\<lparr>consecutiveErrors := n\<rparr> \<and> intervals b = intervals b0 \<and>
      canSendMessages b = canSendMessages b0 \<and> ctxt b = ctxt b0 \<and>
      rateLimiter b = rateLimiter b0 \<and>
      0 \<le> dailyQuotaUsed (quotaManager b) \<and> dailyQuotaUsed (quotaManager b) \<le> 8995)"

text \<open>Five transient failures, a concrete series: each retry fires when its timer is due.\<close>

definition five_failures :: "(int \<times> poll_outcome) list" where
  "five_failures =
     [(1700000001000, Failed ''socket hang up''), (1700000025000, Failed ''ECONNRESET''),
      (1700000073000, Failed ''Backend Error''), (1700000169000, Failed ''socket hang up''),
      (1700000361000, Failed ''Service Unavailable'')]"

section \<open>Quota ledger: properties\<close>

lemma apiCost_CHAT_LIST: "apiCost ''CHAT_LIST'' = 5"
  by (simp add: apiCost_def js_or_def COSTS_def toUpperCase_def toUpperCase_char_def)

lemma apiCost_SEARCH: "apiCost ''SEARCH'' = 100"
  by (simp add: apiCost_def js_or_def COSTS_def toUpperCase_def toUpperCase_char_def)

lemma apiCost_CHAT_INSERT: "apiCost ''CHAT_INSERT'' = 50"
  by (simp add: apiCost_def js_or_def COSTS_def toUpperCase_def toUpperCase_char_def)

lemma used_checkQuotaReset_le:
  "0 \<le> dailyQuotaUsed q \<Longrightarrow> dailyQuotaUsed (checkQuotaReset z q now) \<le> dailyQuotaUsed q"
  by (simp add: checkQuotaReset_def)

lemma used_checkQuotaReset_nonneg:
  "0 \<le> dailyQuotaUsed q \<Longrightarrow> 0 \<le> dailyQuotaUsed (checkQuotaReset z q now)"
  by (simp add: checkQuotaReset_def)

lemma snd_canMakeApiCall: "snd (canMakeApiCall z q operationType now) = checkQuotaReset z q now"
  by (simp add: canMakeApiCall_def Let_def)

lemma fst_canMakeApiCall:
  "fst (canMakeApiCall z q operationType now) =
     (dailyQuotaUsed (checkQuotaReset z q now) + apiCost operationType \<le> SAFE_QUOTA_LIMIT)"
  by (auto simp add: canMakeApiCall_def Let_def)

lemma used_trackApiCall:
  "dailyQuotaUsed (trackApiCall q operationType success now) =
     dailyQuotaUsed q + (if success then apiCost operationType else 0)"
  by (simp add: trackApiCall_def Let_def)

lemma resetTime_trackApiCall:
  "quotaResetTime (trackApiCall q operationType success now) = quotaResetTime q"
  by (simp add: trackApiCall_def Let_def)

lemma COSTS_pos: "COSTS k = Some v \<Longrightarrow> 0 < v"
  by (auto simp add: COSTS_def split: if_splits)

lemma apiCost_pos: "0 < apiCost operationType"
  by (auto simp add: apiCost_def js_or_def dest: COSTS_pos split: option.splits)

lemma ledger_inv_new: "ledger_inv [] (new_QuotaManager z now0)"
  by (simp add: ledger_inv_def new_QuotaManager_def SAFE_QUOTA_LIMIT_def)

lemma ledger_inv_sweep: "ledger_inv fresh q \<Longrightarrow> ledger_inv fresh (checkQuotaReset z q now)"
  using apiCost_pos
  by (auto simp add: ledger_inv_def checkQuotaReset_def SAFE_QUOTA_LIMIT_def)

lemma ledger_inv_admit:
  "ledger_inv fresh q \<Longrightarrow>
   ledger_inv (if fst (canMakeApiCall z q operationType now) then operationType # fresh else fresh)
     (snd (canMakeApiCall z q operationType now))"
  using ledger_inv_sweep [of fresh q z now]
  by (simp add: snd_canMakeApiCall fst_canMakeApiCall ledger_inv_def)

lemma ledger_inv_record:
  "ledger_inv fresh q \<Longrightarrow> (if success then operationType \<in> set fresh else True) \<Longrightarrow>
   ledger_inv (if success then [] else fresh) (trackApiCall q operationType success now)"
  using apiCost_pos [of operationType]
  by (auto simp add: ledger_inv_def used_trackApiCall split: if_splits)

lemma gated_run_inv:
  "ledger_inv fresh q \<Longrightarrow> gated z fresh q calls \<Longrightarrow>
   dailyQuotaUsed (run_quota z q (take n calls)) \<le> SAFE_QUOTA_LIMIT"
proof (induction calls arbitrary: fresh q n)
  case Nil
  then show ?case by (simp add: run_quota_def ledger_inv_def)
next
  case (Cons c calls)
  show ?case
  proof (cases n)
    case 0
    with Cons.prems show ?thesis by (simp add: run_quota_def ledger_inv_def)
  next
    case (Suc m)
    show ?thesis
    proof (cases c)
      case (Admit operationType now)
      with Cons.prems Cons.IH [OF ledger_inv_admit [OF Cons.prems(1)], of z operationType now m] Suc
      show ?thesis by (simp add: run_quota_def)
    next
      case (Record operationType success now)
      with Cons.prems have g: "(if success then operationType \<in> set fresh else True)"
        and r: "gated z (if success then [] else fresh) (trackApiCall q operationType success now) calls"
        by simp_all
      from Cons.IH [OF ledger_inv_record [OF Cons.prems(1) g] r, of m] Record Suc
      show ?thesis by (simp add: run_quota_def)
    next
      case (Sweep now)
      with Cons.prems Cons.IH [OF ledger_inv_sweep [OF Cons.prems(1)], of z now m] Suc
      show ?thesis by (simp add: run_quota_def)
    qed
  qed
qed

lemmas quota_eval = apiCost_SEARCH apiCost_CHAT_LIST apiCost_CHAT_INSERT
  new_QuotaManager_def getNextQuotaReset_def utc_zone_def canMakeApiCall_def checkQuotaReset_def
  trackApiCall_def SAFE_QUOTA_LIMIT_def run_quota_def Let_def

text \<open>
  Claim C1, as stated, fails. In \<open>overrun_calls\<close>, run on a new ledger, every successful
  record has its own earlier admit of the same operation that returned true, and the
  counter ends at 9005, above the ceiling: the reply was admitted at 8950, and the poll
  admitted after it was recorded before it.
\<close>

theorem admitted_then_overrun_counterexample:
  "matched utc_zone [] (new_QuotaManager utc_zone 1000) overrun_calls \<and>
   dailyQuotaUsed (run_quota utc_zone (new_QuotaManager utc_zone 1000) overrun_calls) = 9005 \<and>
   SAFE_QUOTA_LIMIT < dailyQuotaUsed (run_quota utc_zone (new_QuotaManager utc_zone 1000) overrun_calls)"
  by code_simp

text \<open>
  Claim C1, amended. Take any sequence of \<open>canMakeApiCall\<close>, \<open>trackApiCall\<close> and timer
  reset-check calls on a new ledger in which every successful \<open>trackApiCall\<close> is of an
  operation that a \<open>canMakeApiCall\<close> has answered true for since the last successful
  \<open>trackApiCall\<close>. Then after every prefix of the sequence \<open>dailyQuotaUsed\<close> is at most
  \<open>SAFE_QUOTA_LIMIT\<close>. And \<open>canMakeApiCall\<close> returns false exactly when the counter (as
  its own reset check leaves it) plus the operation's cost is above the ceiling: the
  refusal comes before the overrun.
\<close>

theorem quota_admission_invariant:
  assumes "gated z [] (new_QuotaManager z now0) calls"
  shows "dailyQuotaUsed (run_quota z (new_QuotaManager z now0) (take n calls)) \<le> SAFE_QUOTA_LIMIT \<and>
         (fst (canMakeApiCall z q operationType now) \<longleftrightarrow>
            \<not> dailyQuotaUsed (checkQuotaReset z q now) + apiCost operationType > SAFE_QUOTA_LIMIT)"
  using gated_run_inv [OF ledger_inv_new assms] by (auto simp add: fst_canMakeApiCall)

theorem quota_admission_invariant_witness:
  "gated utc_zone [] (new_QuotaManager utc_zone 1000)
     [Admit ''SEARCH'' 2000, Record ''SEARCH'' True 2500, Admit ''CHAT_LIST'' 3000,
      Admit ''CHAT_LIST'' 3001, Sweep 3100, Record ''CHAT_LIST'' True 3200,
      Admit ''CHAT_INSERT'' 4000, Record ''CHAT_INSERT'' False 4100] \<and>
   dailyQuotaUsed (run_quota utc_zone (new_QuotaManager utc_zone 1000) (take 8
     [Admit ''SEARCH'' 2000, Record ''SEARCH'' True 2500, Admit ''CHAT_LIST'' 3000,
      Admit ''CHAT_LIST'' 3001, Sweep 3100, Record ''CHAT_LIST'' True 3200,
      Admit ''CHAT_INSERT'' 4000, Record ''CHAT_INSERT'' False 4100])) = 105 \<and>
   (105::int) \<le> SAFE_QUOTA_LIMIT \<and>
   \<not> fst (canMakeApiCall utc_zone \<lparr>dailyQuotaUsed = 8960, quotaResetTime = 86400000, quotaHistory = []\<rparr>
           ''CHAT_INSERT'' 5000)"
proof -
  let ?cs = "[Admit ''SEARCH'' 2000, Record ''SEARCH'' True 2500, Admit ''CHAT_LIST'' 3000,
      Admit ''CHAT_LIST'' 3001, Sweep 3100, Record ''CHAT_LIST'' True 3200,
      Admit ''CHAT_INSERT'' 4000, Record ''CHAT_INSERT'' False 4100]"
  have g: "gated utc_zone [] (new_QuotaManager utc_zone 1000) ?cs"
    by (simp add: quota_eval)
  have v: "dailyQuotaUsed (run_quota utc_zone (new_QuotaManager utc_zone 1000) (take 8 ?cs)) = 105"
    by (simp add: quota_eval)
  from quota_admission_invariant [OF g, of 8
      "\<lparr>dailyQuotaUsed = 8960, quotaResetTime = 86400000, quotaHistory = []\<rparr>" "''CHAT_INSERT''" 5000]
  show ?thesis using g v by (simp add: quota_eval)
qed

text \<open>
  On a day the zone's offset changes, the next local midnight is not 24 hours after the
  last: at 00:30 local time on the day a zone falls back from UTC-4 to UTC-5, it is 24
  hours 30 minutes away.
\<close>

lemma getNextQuotaReset_fall_back:
  "getNextQuotaReset (fall_back_zone 1699164000000) 1699158600000 = 1699246800000 \<and>
   (1699246800000::int) = 1699158600000 + 88200000"
  by (simp add: getNextQuotaReset_def fall_back_zone_def Let_def)

text \<open>
  Claim C3, as stated, fails for \<open>trackApiCall\<close>: it makes no reset check. A ledger made
  at instant 1000 (reset due at 86400000) is charged one search; a chat-list call is
  admitted at 86399900 and recorded at 86400100, past the reset instant. The record is
  charged on top of the old day's 100 units, and the reset instant stays where it was; on a
  zeroed ledger the counter would be 5.
\<close>

theorem record_skips_reset_counterexample:
  "quotaResetTime (run_quota utc_zone (new_QuotaManager utc_zone 1000)
       [Admit ''SEARCH'' 2000, Record ''SEARCH'' True 2500, Admit ''CHAT_LIST'' 86399900])
     \<le> 86400100 \<and>
   dailyQuotaUsed (trackApiCall (run_quota utc_zone (new_QuotaManager utc_zone 1000)
       [Admit ''SEARCH'' 2000, Record ''SEARCH'' True 2500, Admit ''CHAT_LIST'' 86399900])
       ''CHAT_LIST'' True 86400100) = 105 \<and>
   quotaResetTime (trackApiCall (run_quota utc_zone (new_QuotaManager utc_zone 1000)
       [Admit ''SEARCH'' 2000, Record ''SEARCH'' True 2500, Admit ''CHAT_LIST'' 86399900])
       ''CHAT_LIST'' True 86400100) = 86400000 \<and>
   length (quotaHistory (trackApiCall (run_quota utc_zone (new_QuotaManager utc_zone 1000)
       [Admit ''SEARCH'' 2000, Record ''SEARCH'' True 2500, Admit ''CHAT_LIST'' 86399900])
       ''CHAT_LIST'' True 86400100)) = 2 \<and>
   dailyQuotaUsed (trackApiCall (checkQuotaReset utc_zone (run_quota utc_zone (new_QuotaManager utc_zone 1000)
       [Admit ''SEARCH'' 2000, Record ''SEARCH'' True 2500, Admit ''CHAT_LIST'' 86399900]) 86400100)
       ''CHAT_LIST'' True 86400100) = 5"
  by (simp add: quota_eval)

text \<open>
  Claim C3, amended. \<open>canMakeApiCall\<close> makes the reset check first: called at or past the
  reset instant it zeroes the counter and the history, moves the reset instant to the next
  local midnight, as \<open>getNextQuotaReset\<close> computes it from the host's local time, and
  answers for the zeroed ledger. \<open>trackApiCall\<close> makes no reset check: it adds the cost (nothing for a failed
  call) to the counter as it stands and leaves the reset instant alone. A successful record
  that follows such an admit is therefore charged to a zeroed ledger.
\<close>

theorem reset_check_in_admit_only:
  assumes "quotaResetTime q \<le> now"
  shows "canMakeApiCall z q operationType now =
           (apiCost operationType \<le> SAFE_QUOTA_LIMIT,
            \<lparr>dailyQuotaUsed = 0, quotaResetTime = getNextQuotaReset z now, quotaHistory = []\<rparr>) \<and>
         dailyQuotaUsed (trackApiCall q operationType success now) =
           dailyQuotaUsed q + (if success then apiCost operationType else 0) \<and>
         quotaResetTime (trackApiCall q operationType success now) = quotaResetTime q \<and>
         dailyQuotaUsed (trackApiCall (snd (canMakeApiCall z q operationType now))
           operationType True now') = apiCost operationType"
proof -
  have "canMakeApiCall z q operationType now =
           (apiCost operationType \<le> SAFE_QUOTA_LIMIT,
            \<lparr>dailyQuotaUsed = 0, quotaResetTime = getNextQuotaReset z now, quotaHistory = []\<rparr>)"
    using assms by (auto simp add: canMakeApiCall_def checkQuotaReset_def Let_def)
  moreover have "dailyQuotaUsed (trackApiCall (snd (canMakeApiCall z q operationType now))
           operationType True now') = apiCost operationType"
    using assms by (simp add: used_trackApiCall snd_canMakeApiCall checkQuotaReset_def)
  ultimately show ?thesis
    by (simp add: used_trackApiCall resetTime_trackApiCall)
qed

theorem reset_check_in_admit_only_witness:
  "quotaResetTime \<lparr>dailyQuotaUsed = 8990, quotaResetTime = 86400000, quotaHistory = []\<rparr> \<le> 86400100 \<and>
   canMakeApiCall utc_zone \<lparr>dailyQuotaUsed = 8990, quotaResetTime = 86400000, quotaHistory = []\<rparr>
     ''SEARCH'' 86400100 =
     (True, \<lparr>dailyQuotaUsed = 0, quotaResetTime = 172800000, quotaHistory = []\<rparr>) \<and>
   dailyQuotaUsed (trackApiCall \<lparr>dailyQuotaUsed = 8990, quotaResetTime = 86400000, quotaHistory = []\<rparr>
     ''SEARCH'' True 86400100) = 9090"
  using reset_check_in_admit_only [of "\<lparr>dailyQuotaUsed = 8990, quotaResetTime = 86400000, quotaHistory = []\<rparr>"
      86400100 utc_zone "''SEARCH''" True 86400100]
  by (simp add: apiCost_SEARCH SAFE_QUOTA_LIMIT_def getNextQuotaReset_def utc_zone_def)

section \<open>Response throttle: properties\<close>

lemma hourly_recordAll:
  "hourlyResponses (recordAll r replies) = hourlyResponses r @ map snd replies"
  by (induction replies arbitrary: r) (auto simp add: recordAll_def recordResponse_def)

lemma consts_recordAll:
  "maxResponsesPerHour (recordAll r replies) = maxResponsesPerHour r \<and>
   globalCooldown (recordAll r replies) = globalCooldown r \<and>
   userCooldown (recordAll r replies) = userCooldown r"
  by (induction replies arbitrary: r) (auto simp add: recordAll_def recordResponse_def)

lemma last_recordAll:
  "replies \<noteq> [] \<Longrightarrow> lastGlobalResponse (recordAll r replies) = snd (last replies)"
  by (induction replies arbitrary: r) (auto simp add: recordAll_def recordResponse_def)

lemma canRespond_full:
  "int (length (filter (\<lambda>time. time > now - 3600000) (hourlyResponses r))) \<ge> maxResponsesPerHour r \<Longrightarrow>
   fst (canRespond r userId now) =
     (if now - lastGlobalResponse r < globalCooldown r
      then \<lparr>allowed = False, reason = Some ''global_cooldown''\<rparr>
      else \<lparr>allowed = False, reason = Some ''hourly_limit''\<rparr>)"
  by (simp add: canRespond_def getHourlyResponseCount_def Let_def)

text \<open>
  Claim C6, amended. With the cap at 30, after thirty replies have been recorded, all
  inside the hour that ends at the instant of the check, \<open>canRespond\<close> refuses every
  author. The reason it gives is \<open>hourly_limit\<close> when the check comes at least
  \<open>globalCooldown\<close> after the last recorded reply; sooner than that the global cooldown
  is tested first and the reason is \<open>global_cooldown\<close>. The count is taken over the hour
  that ends at the instant of the check: all thirty replies are counted, with whatever
  earlier entries still fall inside that hour.
\<close>

theorem hourly_cap_diagnosis:
  assumes "maxResponsesPerHour r = 30"
    and "length replies = 30"
    and "list_all (\<lambda>(userId, t). now - 3600000 < t) replies"
  shows "fst (canRespond (recordAll r replies) userId now) =
           (if now - snd (last replies) < globalCooldown r
            then \<lparr>allowed = False, reason = Some ''global_cooldown''\<rparr>
            else \<lparr>allowed = False, reason = Some ''hourly_limit''\<rparr>) \<and>
         fst (getHourlyResponseCount (recordAll r replies) now) =
           length (filter (\<lambda>t. now - 3600000 < t) (hourlyResponses r)) + 30"
proof -
  have ne: "replies \<noteq> []" using assms(2) by auto
  have f: "filter (\<lambda>time. time > now - 3600000) (map snd replies) = map snd replies"
    using assms(3) by (auto simp add: filter_id_conv list_all_iff)
  have c: "length (filter (\<lambda>time. time > now - 3600000) (hourlyResponses (recordAll r replies)))
      = length (filter (\<lambda>t. now - 3600000 < t) (hourlyResponses r)) + 30"
    using f assms(2) by (simp add: hourly_recordAll)
  then have "int (length (filter (\<lambda>time. time > now - 3600000) (hourlyResponses (recordAll r replies))))
      \<ge> maxResponsesPerHour (recordAll r replies)"
    using assms(1) by (simp add: consts_recordAll)
  from canRespond_full [OF this, of userId] c show ?thesis
    by (simp add: last_recordAll [OF ne] consts_recordAll getHourlyResponseCount_def Let_def)
qed

lemma canRespond_cooling:
  "now - lastGlobalResponse r < globalCooldown r \<Longrightarrow>
   fst (canRespond r userId now) = \<lparr>allowed = False, reason = Some ''global_cooldown''\<rparr>"
  by (simp add: canRespond_def)

lemma thirty_replies_eval:
  "length thirty_replies = 30 \<and> snd (last thirty_replies) = 1700000290000 \<and>
   list_all (\<lambda>(userId, t). 1700000291000 - 3600000 < t) thirty_replies \<and>
   list_all (\<lambda>(userId, t). 1700000298000 - 3600000 < t) thirty_replies"
  by code_simp

lemma new_default: "new_RateLimiter default_limits =
  \<lparr>maxResponsesPerHour = 30, globalCooldown = 8000, userCooldown = 30000,
      lastGlobalResponse = 0, userResponses = Map.empty, hourlyResponses = []\<rparr>"
  by (simp add: new_RateLimiter_def default_limits_def js_or_def)

theorem hourly_cap_diagnosis_witness:
  "maxResponsesPerHour (new_RateLimiter default_limits) = 30 \<and> length thirty_replies = 30 \<and>
   list_all (\<lambda>(userId, t). 1700000298000 - 3600000 < t) thirty_replies \<and>
   fst (canRespond (recordAll (new_RateLimiter default_limits) thirty_replies) ''other'' 1700000298000) =
     \<lparr>allowed = False, reason = Some ''hourly_limit''\<rparr>"
  using hourly_cap_diagnosis [of "new_RateLimiter default_limits" thirty_replies 1700000298000 "''other''"]
    thirty_replies_eval
  by (simp add: new_default)

text \<open>
  Claim C6, as stated, fails on the reason: thirty replies ten seconds apart, and a check
  one second after the last of them. The check is refused, but with \<open>global_cooldown\<close>.
\<close>

theorem hourly_cap_reason_counterexample:
  "maxResponsesPerHour (new_RateLimiter default_limits) = 30 \<and> length thirty_replies = 30 \<and>
   list_all (\<lambda>(userId, t). 1700000291000 - 3600000 < t) thirty_replies \<and>
   fst (canRespond (recordAll (new_RateLimiter default_limits) thirty_replies) ''other'' 1700000291000) =
     \<lparr>allowed = False, reason = Some ''global_cooldown''\<rparr> \<and>
   reason (fst (canRespond (recordAll (new_RateLimiter default_limits) thirty_replies) ''other'' 1700000291000))
     \<noteq> Some ''hourly_limit''"
proof -
  have "fst (canRespond (recordAll (new_RateLimiter default_limits) thirty_replies) ''other'' 1700000291000) =
     \<lparr>allowed = False, reason = Some ''global_cooldown''\<rparr>"
  proof (rule canRespond_cooling)
    have "thirty_replies \<noteq> []" using thirty_replies_eval by auto
    from last_recordAll [OF this] thirty_replies_eval
    show "1700000291000 - lastGlobalResponse (recordAll (new_RateLimiter default_limits) thirty_replies)
          < globalCooldown (recordAll (new_RateLimiter default_limits) thirty_replies)"
      by (simp add: consts_recordAll new_default)
  qed
  then show ?thesis using thirty_replies_eval by (simp add: new_default)
qed

text \<open>
  Claim C7, as stated, fails: on a new limiter with \<open>globalCooldown = 8000\<close>, a check for
  one author and a check for another 5000 ms later are both allowed, when no reply is
  recorded between them.
\<close>

theorem two_checks_both_allowed_counterexample:
  "globalCooldown (new_RateLimiter default_limits) = 8000 \<and>
   allowed (fst (canRespond (new_RateLimiter default_limits) ''alice'' 1700000000000)) \<and>
   allowed (fst (canRespond (snd (canRespond (new_RateLimiter default_limits) ''alice'' 1700000000000))
      ''bob'' 1700000005000))"
  by (simp add: new_default canRespond_def getHourlyResponseCount_def Let_def)

lemma canRespond_frame:
  "lastGlobalResponse (snd (canRespond r userId now)) = lastGlobalResponse r \<and>
   userResponses (snd (canRespond r userId now)) = userResponses r \<and>
   maxResponsesPerHour (snd (canRespond r userId now)) = maxResponsesPerHour r \<and>
   globalCooldown (snd (canRespond r userId now)) = globalCooldown r \<and>
   userCooldown (snd (canRespond r userId now)) = userCooldown r"
  by (simp add: canRespond_def getHourlyResponseCount_def Let_def split: option.splits)

text \<open>
  Claim C7, amended. With \<open>globalCooldown = 8000\<close>, once a reply has been recorded (after
  a check, for any authors), every check made less than 8000 ms after the recording, so
  5000 ms after it, is refused with reason \<open>global_cooldown\<close>, whoever the author is.
\<close>

theorem global_cooldown_exclusion:
  assumes "globalCooldown r = 8000" and "d < 8000"
  shows "fst (canRespond (recordResponse (snd (canRespond r userId1 now)) userId now) userId2 (now + d)) =
           \<lparr>allowed = False, reason = Some ''global_cooldown''\<rparr>"
proof (rule canRespond_cooling)
  show "now + d - lastGlobalResponse (recordResponse (snd (canRespond r userId1 now)) userId now)
        < globalCooldown (recordResponse (snd (canRespond r userId1 now)) userId now)"
    using assms canRespond_frame [of r userId1 now] by (simp add: recordResponse_def)
qed

theorem global_cooldown_exclusion_witness:
  "globalCooldown (new_RateLimiter default_limits) = 8000 \<and> (5000::int) < 8000 \<and>
   allowed (fst (canRespond (new_RateLimiter default_limits) ''alice'' 1700000000000)) \<and>
   fst (canRespond (recordResponse (snd (canRespond (new_RateLimiter default_limits) ''alice'' 1700000000000))
      ''alice'' 1700000000000) ''bob'' (1700000000000 + 5000)) =
     \<lparr>allowed = False, reason = Some ''global_cooldown''\<rparr>"
  using global_cooldown_exclusion [of "new_RateLimiter default_limits" 5000 "''alice''" 1700000000000
      "''alice''" "''bob''"]
  by (simp add: new_default canRespond_def [of "\<lparr>maxResponsesPerHour = 30, globalCooldown = 8000, userCooldown = 30000,
      lastGlobalResponse = 0, userResponses = Map.empty, hourlyResponses = []\<rparr>"] getHourlyResponseCount_def Let_def)

lemma canRespond_hourly:
  "hourlyResponses (snd (canRespond r userId now)) = hourlyResponses r \<or>
   hourlyResponses (snd (canRespond r userId now)) = filter (\<lambda>t. now - 3600000 < t) (hourlyResponses r)"
  by (simp add: canRespond_def getHourlyResponseCount_def Let_def split: option.splits)

lemma canRespond_pruned:
  "fst (canRespond (r\<lparr>hourlyResponses := filter (\<lambda>t. now - 3600000 < t) (hourlyResponses r)\<rparr>) userId now) =
   fst (canRespond r userId now)"
  by (simp add: canRespond_def getHourlyResponseCount_def Let_def split: option.splits)

lemma canRespond_snd_cases:
  "snd (canRespond r userId now) = r \<or>
   snd (canRespond r userId now) = r\<lparr>hourlyResponses := filter (\<lambda>t. now - 3600000 < t) (hourlyResponses r)\<rparr>"
  by (simp add: canRespond_def getHourlyResponseCount_def Let_def split: option.splits)

lemma canRespond_after_check:
  "fst (canRespond (snd (canRespond r userId' now)) userId now) = fst (canRespond r userId now)"
  using canRespond_snd_cases [of r userId' now] canRespond_pruned [of now r userId]
  by auto

lemma canRespond_after_checkAll:
  "fst (canRespond (checkAll r userIds now) userId now) = fst (canRespond r userId now)"
  by (induction userIds arbitrary: r) (simp_all add: checkAll_def canRespond_after_check)

text \<open>
  Claim C9. \<open>canRespond\<close> leaves \<open>lastGlobalResponse\<close> and the per-author map as they were,
  and the hourly list either as it was or pruned to the entries inside the trailing hour.
  So after any number of checks at one instant, for any authors, a check at that instant
  answers as it would have before them. Only \<open>recordResponse\<close> starts the cooldowns: it
  sets \<open>lastGlobalResponse\<close> and the author's entry to the instant of the call and appends
  that instant to the hourly list.
\<close>

theorem canRespond_pure_gate:
  "lastGlobalResponse (snd (canRespond r userId now)) = lastGlobalResponse r \<and>
   userResponses (snd (canRespond r userId now)) = userResponses r \<and>
   (hourlyResponses (snd (canRespond r userId now)) = hourlyResponses r \<or>
    hourlyResponses (snd (canRespond r userId now)) =
      filter (\<lambda>t. now - 3600000 < t) (hourlyResponses r)) \<and>
   fst (canRespond (checkAll r userIds now) userId now) = fst (canRespond r userId now) \<and>
   lastGlobalResponse (recordResponse r userId now) = now \<and>
   userResponses (recordResponse r userId now) userId = Some now \<and>
   hourlyResponses (recordResponse r userId now) = hourlyResponses r @ [now]"
  using canRespond_frame [of r userId now] canRespond_hourly [of r userId now]
    canRespond_after_checkAll [of r userIds now userId]
  by (simp add: recordResponse_def)


theorem canRespond_pure_gate_witness:
  "lastGlobalResponse (snd (canRespond (new_RateLimiter default_limits) ''alice'' 1700000000000)) = 0 \<and>
   fst (canRespond (checkAll (new_RateLimiter default_limits) [''bob'', ''alice''] 1700000000000)
      ''alice'' 1700000000000) = \<lparr>allowed = True, reason = None\<rparr> \<and>
   lastGlobalResponse (recordResponse (new_RateLimiter default_limits) ''alice'' 1700000000000)
     = 1700000000000"
  using canRespond_pure_gate [of "new_RateLimiter default_limits" "''alice''" 1700000000000
      "[''bob'', ''alice'']"]
  by (simp add: new_default canRespond_def getHourlyResponseCount_def Let_def)

section \<open>Chat context: properties\<close>


lemmas ctx_eval = updateContext_def updateChatMood_def initializeContext_def message_with_def
  slice_last_def Let_def CHAT_MOODS_NEUTRAL_def CHAT_MOODS_EXCITED_def CHAT_MOODS_FRUSTRATED_def
  CHAT_MOODS_SUPPORTIVE_def CHAT_MOODS_HYPED_def GAME_STATES_UNKNOWN_def

text \<open>
  Claim C2. \<open>updateContext\<close> calls \<open>updateChatMood\<close> before it pushes the message, and
  \<open>updateChatMood\<close> reads the history only, not the sentiment it is handed: the mood is
  computed from the ten entries before the message just recorded. On a new context, after
  six positive messages the sixth is in the history but the mood was computed from five:
  it is \<open>supportive\<close>, not \<open>excited\<close>. Six negative messages leave it \<open>neutral\<close>, not
  \<open>frustrated\<close>. The mood turns \<open>excited\<close> only with the message after the sixth positive
  one, whatever its sentiment.
\<close>

theorem mood_lags_one_message:
  "chatMood (record_messages initializeContext 1700000000000
      [''positive'', ''positive'', ''positive'', ''positive'', ''positive'', ''positive''])
     = CHAT_MOODS_SUPPORTIVE \<and>
   map msg_sentiment (messageHistory (record_messages initializeContext 1700000000000
      [''positive'', ''positive'', ''positive'', ''positive'', ''positive'', ''positive'']))
     = [''positive'', ''positive'', ''positive'', ''positive'', ''positive'', ''positive''] \<and>
   chatMood (record_messages initializeContext 1700000000000
      [''negative'', ''negative'', ''negative'', ''negative'', ''negative'', ''negative''])
     = CHAT_MOODS_NEUTRAL \<and>
   chatMood (record_messages initializeContext 1700000000000
      [''positive'', ''positive'', ''positive'', ''positive'', ''positive'', ''positive'', ''neutral''])
     = CHAT_MOODS_EXCITED"
  by (simp add: ctx_eval)

lemma mood_ok_updateChatMood: "mood_ok (updateChatMood c s)"
  by (simp add: updateChatMood_def mood_ok_def Let_def)

lemma chatMood_updateContext:
  "chatMood (updateContext c eventType data timestamp) =
     (if eventType = ''messageReceived'' \<and> data_analysis data \<noteq> None
      then chatMood (updateChatMood c []) else chatMood c)"
  by (auto simp add: updateContext_def updateChatMood_def Let_def split: option.splits)

lemma mood_ok_step: "mood_ok c \<Longrightarrow> mood_ok (context_step c op)"
  using mood_ok_updateChatMood [of c "[]"]
  by (cases op) (auto simp add: mood_ok_def chatMood_updateContext cleanup_context_def cleanupContext_def Let_def)

lemma mood_ok_run: "mood_ok c \<Longrightarrow> mood_ok (run_context c ops)"
  by (induction ops arbitrary: c) (simp_all add: run_context_def mood_ok_step)

text \<open>
  Claim C10. From the initial context, after any sequence of the operations that write
  the context, \<open>chatMood\<close> is one of \<open>neutral\<close>, \<open>excited\<close>, \<open>frustrated\<close>, \<open>supportive\<close>,
  and so never \<open>hyped\<close>.
\<close>

theorem hyped_unreachable:
  "chatMood (run_context initializeContext ops) \<noteq> CHAT_MOODS_HYPED \<and>
   chatMood (run_context initializeContext ops) \<in>
     set [CHAT_MOODS_NEUTRAL, CHAT_MOODS_EXCITED, CHAT_MOODS_FRUSTRATED, CHAT_MOODS_SUPPORTIVE]"
proof -
  have "mood_ok initializeContext" by (simp add: mood_ok_def initializeContext_def)
  from mood_ok_run [OF this, of ops] show ?thesis
    by (auto simp add: mood_ok_def CHAT_MOODS_NEUTRAL_def CHAT_MOODS_EXCITED_def CHAT_MOODS_FRUSTRATED_def
  CHAT_MOODS_SUPPORTIVE_def CHAT_MOODS_HYPED_def)
qed

theorem hyped_unreachable_witness:
  "chatMood (run_context initializeContext
      [UpdateContext ''messageReceived'' (message_with ''positive'') 1700000000000,
       SetStreamerMood ''hyped'', Cleanup]) = ''neutral'' \<and>
   streamerMood (run_context initializeContext
      [UpdateContext ''messageReceived'' (message_with ''positive'') 1700000000000,
       SetStreamerMood ''hyped'', Cleanup]) = ''hyped''"
  using hyped_unreachable [of "[UpdateContext ''messageReceived'' (message_with ''positive'') 1700000000000,
       SetStreamerMood ''hyped'', Cleanup]"]
  by (simp add: run_context_def cleanup_context_def ctx_eval)

section \<open>Poll cycle: properties\<close>


lemma checkQuotaReset_idem:
  "checkQuotaReset z (checkQuotaReset z q now) now = checkQuotaReset z q now"
  by (simp add: checkQuotaReset_def)

lemma canMakeApiCall_eq:
  "canMakeApiCall z q operationType now =
     (dailyQuotaUsed (checkQuotaReset z q now) + apiCost operationType \<le> SAFE_QUOTA_LIMIT,
      checkQuotaReset z q now)"
  by (auto simp add: canMakeApiCall_def Let_def)

lemma canMakeApiCall_again:
  "canMakeApiCall z (checkQuotaReset z q now) operationType now = canMakeApiCall z q operationType now"
  by (simp add: canMakeApiCall_eq checkQuotaReset_idem)

lemma poll_denied:
  assumes "isRunning (state b)" and "truthy (liveChatId (state b))"
    and "\<not> fst (canMakeApiCall z (quotaManager b) ''CHAT_LIST'' now)"
  shows "pollMessages z now outcome b =
           (b\<lparr>quotaManager := checkQuotaReset z (quotaManager b) now\<rparr>, [SetTimeout_pollMessages 60000])"
  using assms by (simp add: pollMessages_def canMakeApiCall_eq)

text \<open>
  Claim C5. When a poll cycle of a running, attached bot is refused by the quota gate for
  \<open>CHAT_LIST\<close>, the cycle sets one timer, a poll after 60000 ms, and nothing else; the
  error counter, the video id, the chat id, the page token and the running flag are as
  before. The bot differs from the one before at most in its ledger, which has been
  through the gate's reset check. The cycle returns normally, whatever the transport
  would have done.
\<close>

theorem quota_pause_preserves_session:
  assumes "isRunning (state b)" and "truthy (liveChatId (state b))"
    and "\<not> fst (canMakeApiCall z (quotaManager b) ''CHAT_LIST'' now)"
  shows "snd (pollMessages z now outcome b) = [SetTimeout_pollMessages 60000] \<and>
         consecutiveErrors (state (fst (pollMessages z now outcome b))) = consecutiveErrors (state b) \<and>
         videoId (state (fst (pollMessages z now outcome b))) = videoId (state b) \<and>
         liveChatId (state (fst (pollMessages z now outcome b))) = liveChatId (state b) \<and>
         nextPageToken (state (fst (pollMessages z now outcome b))) = nextPageToken (state b) \<and>
         isRunning (state (fst (pollMessages z now outcome b))) = isRunning (state b) \<and>
         fst (pollMessages z now outcome b) =
           b\<lparr>quotaManager := snd (canMakeApiCall z (quotaManager b) ''CHAT_LIST'' now)\<rparr>"
  by (simp add: poll_denied [OF assms] snd_canMakeApiCall)

lemma getChatMessages_failed:
  assumes "fst (canMakeApiCall z q ''CHAT_LIST'' now)"
  shows "getChatMessages z now (checkQuotaReset z q now) (Failed message) =
           (trackApiCall (checkQuotaReset z q now) ''CHAT_LIST'' False now, Inl message)"
  using assms
  by (simp add: getChatMessages_def canMakeApiCall_eq checkQuotaReset_idem)

lemma poll_failed:
  assumes "isRunning (state b)" and "truthy (liveChatId (state b))"
    and "fst (canMakeApiCall z (quotaManager b) ''CHAT_LIST'' now)"
    and "transient message"
  shows "pollMessages z now (Failed message) b =
           (fst (handleError z now
                   (b\<lparr>quotaManager := trackApiCall (checkQuotaReset z (quotaManager b) now)
                                         ''CHAT_LIST'' False now\<rparr>)),
            snd (handleError z now
                   (b\<lparr>quotaManager := trackApiCall (checkQuotaReset z (quotaManager b) now)
                                         ''CHAT_LIST'' False now\<rparr>)) @
            [SetTimeout_pollMessages
               (min (MIN_POLL_INTERVAL * 2 ^ consecutiveErrors (state (fst (handleError z now
                   (b\<lparr>quotaManager := trackApiCall (checkQuotaReset z (quotaManager b) now)
                                         ''CHAT_LIST'' False now\<rparr>))))) MAX_BACKOFF)])"
  using assms
  by (simp add: pollMessages_def getChatMessages_failed transient_def canMakeApiCall_eq
      split: prod.splits)

lemma no_timer_clearIntervals: "filter is_poll_timer (clearIntervals iv) = []"
  by (simp add: clearIntervals_def List.map_filter_def filter_empty_conv)

lemma gracefulShutdown_errors:
  "consecutiveErrors (state (fst (gracefulShutdown z now b))) = consecutiveErrors (state b)"
  by (simp add: gracefulShutdown_def Let_def split: prod.splits)

lemma gracefulShutdown_no_timer:
  "filter is_poll_timer (snd (gracefulShutdown z now b)) = []"
  by (simp add: gracefulShutdown_def Let_def no_timer_clearIntervals split: prod.splits)

lemma handleError_errors:
  "consecutiveErrors (state (fst (handleError z now b))) = consecutiveErrors (state b) + 1"
  by (simp add: handleError_def Let_def gracefulShutdown_errors)

lemma handleError_no_timer:
  "filter is_poll_timer (snd (handleError z now b)) = []"
  by (simp add: handleError_def Let_def gracefulShutdown_no_timer)

text \<open>
  Claim C4, amended. When an admitted poll cycle of a running, attached bot fails with a
  transient error while the error counter is \<open>n\<close>, the counter becomes \<open>n + 1\<close> and the
  cycle schedules exactly one next poll, as its last effect, after
  \<open>min (MIN_POLL_INTERVAL * 2 ^ (n + 1)) MAX_BACKOFF\<close>: the exponent is the counter
  after the increment.
\<close>

theorem backoff_schedule:
  assumes "isRunning (state b)" and "truthy (liveChatId (state b))"
    and "fst (canMakeApiCall z (quotaManager b) ''CHAT_LIST'' now)"
    and "transient message"
    and "consecutiveErrors (state b) = n"
  shows "consecutiveErrors (state (fst (pollMessages z now (Failed message) b))) = n + 1 \<and>
         filter is_poll_timer (snd (pollMessages z now (Failed message) b)) =
           [SetTimeout_pollMessages (min (MIN_POLL_INTERVAL * 2 ^ (n + 1)) MAX_BACKOFF)] \<and>
         last (snd (pollMessages z now (Failed message) b)) =
           SetTimeout_pollMessages (min (MIN_POLL_INTERVAL * 2 ^ (n + 1)) MAX_BACKOFF)"
  using assms(5)
  by (simp add: poll_failed [OF assms(1-4)] handleError_errors handleError_no_timer)


lemma admitted_CHAT_LIST:
  "0 \<le> dailyQuotaUsed q \<Longrightarrow> dailyQuotaUsed q \<le> 8995 \<Longrightarrow> fst (canMakeApiCall z q ''CHAT_LIST'' now)"
  using used_checkQuotaReset_le [of q z now]
  by (simp add: fst_canMakeApiCall apiCost_CHAT_LIST SAFE_QUOTA_LIMIT_def)

lemma failed_poll_quota:
  "0 \<le> dailyQuotaUsed q \<Longrightarrow> dailyQuotaUsed q \<le> 8995 \<Longrightarrow>
   0 \<le> dailyQuotaUsed (trackApiCall (checkQuotaReset z q now) ''CHAT_LIST'' False now) \<and>
   dailyQuotaUsed (trackApiCall (checkQuotaReset z q now) ''CHAT_LIST'' False now) \<le> 8995"
  using used_checkQuotaReset_le [of q z now] used_checkQuotaReset_nonneg [of q z now]
  by (simp add: used_trackApiCall)

lemma polling_step:
  assumes p: "polling_with b0 n b"
    and r: "isRunning (state b0)" and l: "truthy (liveChatId (state b0))"
    and t: "transient message"
    and k: "k = n + 1" and n: "k < maxConsecutiveErrors (state b0)"
    and d: "d = min (MIN_POLL_INTERVAL * 2 ^ k) MAX_BACKOFF"
  shows "\<exists>b1. pollMessages z now (Failed message) b = (b1, [SetTimeout_pollMessages d]) \<and>
               polling_with b0 k b1"
proof -
  from p have s: "state b = (state b0)\<lparr>consecutiveErrors := n\<rparr>"
    and q: "0 \<le> dailyQuotaUsed (quotaManager b)" "dailyQuotaUsed (quotaManager b) \<le> 8995"
    by (simp_all add: polling_with_def)
  have r': "isRunning (state b)" and l': "truthy (liveChatId (state b))"
    using r l s by simp_all
  note pf = poll_failed [OF r' l' admitted_CHAT_LIST [OF q] t, of z now]
  show ?thesis
    using p n s k d failed_poll_quota [OF q, of z now]
    by (simp add: pf handleError_def Let_def polling_with_def)
qed

lemma polling_fatal:
  assumes p: "polling_with b0 n b"
    and r: "isRunning (state b0)" and l: "truthy (liveChatId (state b0))"
    and t: "transient message"
    and k: "k = n + 1" and n: "maxConsecutiveErrors (state b0) \<le> k"
    and d: "d = min (MIN_POLL_INTERVAL * 2 ^ k) MAX_BACKOFF"
  shows "\<exists>b1. pollMessages z now (Failed message) b =
                 (b1, clearIntervals (intervals b0) @
                      (if canSendMessages b0
                       then (if dailyQuotaUsed (quotaManager b1) + 50 \<le> 9000
                             then [Insert_message (case liveChatId (state b0) of Some lc \<Rightarrow> lc | None \<Rightarrow> []) FAREWELL]
                             else [])
                       else [WebServer_stop]) @
                      [SetTimeout_pollMessages d]) \<and>
               state b1 = (state b0)\<lparr>consecutiveErrors := k, isRunning := False, isMonitoring := False\<rparr>"
proof -
  from p have s: "state b = (state b0)\<lparr>consecutiveErrors := n\<rparr>"
    and q: "0 \<le> dailyQuotaUsed (quotaManager b)" "dailyQuotaUsed (quotaManager b) \<le> 8995"
    by (simp_all add: polling_with_def)
  have r': "isRunning (state b)" and l': "truthy (liveChatId (state b))"
    using r l s by simp_all
  note pf = poll_failed [OF r' l' admitted_CHAT_LIST [OF q] t, of z now]
  show ?thesis
    using p n s l k d
    by (simp add: pf handleError_def gracefulShutdown_def Let_def polling_with_def
        canMakeApiCall_eq apiCost_CHAT_INSERT SAFE_QUOTA_LIMIT_def)
qed

lemma polling_with_refl:
  "consecutiveErrors (state b) = 0 \<Longrightarrow> 0 \<le> dailyQuotaUsed (quotaManager b) \<Longrightarrow>
   dailyQuotaUsed (quotaManager b) \<le> 8995 \<Longrightarrow> polling_with b 0 b"
  by (simp add: polling_with_def)

lemma clearIntervals_held: "clearIntervals iv = map ClearInterval (held_handles iv)"
  by (simp add: clearIntervals_def held_handles_def)

lemma host_clear_handles:
  "foldl host_apply h (map ClearInterval ns) =
     h\<lparr>pending := filter (\<lambda>t. timer_handle t \<notin> set ns) (pending h)\<rparr>"
proof (induction ns arbitrary: h)
  case Nil
  show ?case by simp
next
  case (Cons n ns)
  have "filter (\<lambda>t. timer_handle t \<notin> set ns) (filter (\<lambda>t. timer_handle t \<noteq> n) (pending h)) =
        filter (\<lambda>t. timer_handle t \<notin> set (n # ns)) (pending h)"
    by (auto intro: filter_cong)
  then show ?case
    by (simp add: Cons.IH clearInterval_def)
qed

lemma host_farewell:
  "foldl host_apply h (if c then (if d then [Insert_message x y] else []) else [WebServer_stop]) = h"
  by simp

lemma timers_after_five:
  assumes "\<And>h'. foldl host_apply h' F = h'"
  shows "pending (timers_after h
           [[SetTimeout_pollMessages d1], [SetTimeout_pollMessages d2], [SetTimeout_pollMessages d3],
            [SetTimeout_pollMessages d4], map ClearInterval ns @ F @ [SetTimeout_pollMessages d5]]) =
         filter (\<lambda>t. timer_handle t \<notin> set ns \<and> timer_callback t \<noteq> Call_pollMessages) (pending h) @
         [\<lparr>timer_handle = next_handle h + 4, timer_callback = Call_pollMessages, timer_ms = d5,
           timer_repeats = False\<rparr>]"
proof -
  have "filter (\<lambda>t. timer_handle t \<notin> set ns) (filter (\<lambda>t. timer_callback t \<noteq> Call_pollMessages) (pending h)) =
        filter (\<lambda>t. timer_handle t \<notin> set ns \<and> timer_callback t \<noteq> Call_pollMessages) (pending h)"
    by (auto intro: filter_cong)
  then show ?thesis
    by (simp add: timers_after_def fire_pollMessages_def setTimeout_def host_clear_handles assms)
qed

text \<open>
  Claim C8, amended. A running, attached bot with no errors counted, a threshold of 5 and
  room in the ledger for a chat-list call goes through five poll cycles that each fail
  with a transient error. The first four schedule a retry each, after 24000, 48000, 96000
  and 192000 ms. On the fifth the counter reaches 5 and shutdown begins: the running and
  monitoring flags are cleared, the bot's interval timers are cleared, and after that the
  farewell send is started (if credentials are present and the quota gate admits it;
  without credentials the web server's stop is started). The fifth cycle then still
  schedules a retry, after 300000 ms. Any poll cycle on the stopped bot returns at once,
  with no effect and no change. In the host's table of timers, whatever it held before the
  five cycles, the timers whose handles the bot holds in \<open>this.intervals\<close> are gone;
  every other timer that was pending is still pending (but for poll timeouts, which have
  fired), and the retry of the fifth cycle is pending with them.
\<close>

theorem five_failures_stop:
  assumes r: "isRunning (state b)" and l: "truthy (liveChatId (state b))"
    and e: "consecutiveErrors (state b) = 0" and m: "maxConsecutiveErrors (state b) = 5"
    and q: "0 \<le> dailyQuotaUsed (quotaManager b)" "dailyQuotaUsed (quotaManager b) \<le> 8995"
    and t: "transient m1" "transient m2" "transient m3" "transient m4" "transient m5"
    and run: "poll_run z b [(t1, Failed m1), (t2, Failed m2), (t3, Failed m3), (t4, Failed m4),
                (t5, Failed m5)] = (b', effects)"
  shows "\<not> isRunning (state b') \<and> \<not> isMonitoring (state b') \<and> consecutiveErrors (state b') = 5 \<and>
         effects =
           [[SetTimeout_pollMessages 24000], [SetTimeout_pollMessages 48000],
            [SetTimeout_pollMessages 96000], [SetTimeout_pollMessages 192000],
            clearIntervals (intervals b) @
            (if canSendMessages b
             then (if dailyQuotaUsed (quotaManager b') + 50 \<le> 9000
                   then [Insert_message (case liveChatId (state b) of Some lc \<Rightarrow> lc | None \<Rightarrow> []) FAREWELL]
                   else [])
             else [WebServer_stop]) @
            [SetTimeout_pollMessages 300000]] \<and>
         pollMessages z t6 outcome b' = (b', []) \<and>
         pending (timers_after h effects) =
           filter (\<lambda>t. timer_handle t \<notin> set (held_handles (intervals b)) \<and>
                        timer_callback t \<noteq> Call_pollMessages) (pending h) @
           [\<lparr>timer_handle = next_handle h + 4, timer_callback = Call_pollMessages,
             timer_ms = 300000, timer_repeats = False\<rparr>]"
proof -
  note p0 = polling_with_refl [OF e q]
  have "\<exists>b1. pollMessages z t1 (Failed m1) b = (b1, [SetTimeout_pollMessages 24000]) \<and>
             polling_with b 1 b1"
    by (rule polling_step [OF p0 r l t(1)]) (simp_all add: m MIN_POLL_INTERVAL_def MAX_BACKOFF_def)
  then obtain b1
    where s1: "pollMessages z t1 (Failed m1) b = (b1, [SetTimeout_pollMessages 24000])"
      and p1: "polling_with b 1 b1"
    by blast
  have "\<exists>b2. pollMessages z t2 (Failed m2) b1 = (b2, [SetTimeout_pollMessages 48000]) \<and>
             polling_with b 2 b2"
    by (rule polling_step [OF p1 r l t(2)]) (simp_all add: m MIN_POLL_INTERVAL_def MAX_BACKOFF_def)
  then obtain b2
    where s2: "pollMessages z t2 (Failed m2) b1 = (b2, [SetTimeout_pollMessages 48000])"
      and p2: "polling_with b 2 b2"
    by blast
  have "\<exists>b3. pollMessages z t3 (Failed m3) b2 = (b3, [SetTimeout_pollMessages 96000]) \<and>
             polling_with b 3 b3"
    by (rule polling_step [OF p2 r l t(3)]) (simp_all add: m MIN_POLL_INTERVAL_def MAX_BACKOFF_def)
  then obtain b3
    where s3: "pollMessages z t3 (Failed m3) b2 = (b3, [SetTimeout_pollMessages 96000])"
      and p3: "polling_with b 3 b3"
    by blast
  have "\<exists>b4. pollMessages z t4 (Failed m4) b3 = (b4, [SetTimeout_pollMessages 192000]) \<and>
             polling_with b 4 b4"
    by (rule polling_step [OF p3 r l t(4)]) (simp_all add: m MIN_POLL_INTERVAL_def MAX_BACKOFF_def)
  then obtain b4
    where s4: "pollMessages z t4 (Failed m4) b3 = (b4, [SetTimeout_pollMessages 192000])"
      and p4: "polling_with b 4 b4"
    by blast
  have "\<exists>b5. pollMessages z t5 (Failed m5) b4 =
        (b5, clearIntervals (intervals b) @
             (if canSendMessages b
              then (if dailyQuotaUsed (quotaManager b5) + 50 \<le> 9000
                    then [Insert_message (case liveChatId (state b) of Some lc \<Rightarrow> lc | None \<Rightarrow> []) FAREWELL]
                    else [])
              else [WebServer_stop]) @
             [SetTimeout_pollMessages 300000]) \<and>
        state b5 = (state b)\<lparr>consecutiveErrors := 5, isRunning := False, isMonitoring := False\<rparr>"
    by (rule polling_fatal [OF p4 r l t(5)]) (simp_all add: m MIN_POLL_INTERVAL_def MAX_BACKOFF_def)
  then obtain b5
    where s5: "pollMessages z t5 (Failed m5) b4 =
        (b5, clearIntervals (intervals b) @
             (if canSendMessages b
              then (if dailyQuotaUsed (quotaManager b5) + 50 \<le> 9000
                    then [Insert_message (case liveChatId (state b) of Some lc \<Rightarrow> lc | None \<Rightarrow> []) FAREWELL]
                    else [])
              else [WebServer_stop]) @
             [SetTimeout_pollMessages 300000])"
      and p5: "state b5 = (state b)\<lparr>consecutiveErrors := 5, isRunning := False, isMonitoring := False\<rparr>"
    by blast
  from run have b': "b' = b5"
    by (simp add: s1 s2 s3 s4 s5)
  from run have eff: "effects = [[SetTimeout_pollMessages 24000], [SetTimeout_pollMessages 48000],
            [SetTimeout_pollMessages 96000], [SetTimeout_pollMessages 192000],
            clearIntervals (intervals b) @
            (if canSendMessages b
             then (if dailyQuotaUsed (quotaManager b5) + 50 \<le> 9000
                   then [Insert_message (case liveChatId (state b) of Some lc \<Rightarrow> lc | None \<Rightarrow> []) FAREWELL]
                   else [])
             else [WebServer_stop]) @
            [SetTimeout_pollMessages 300000]]"
    by (simp add: s1 s2 s3 s4 s5)
  have stop: "pollMessages z t6 outcome b5 = (b5, [])"
    using p5 by (simp add: pollMessages_def)
  have tm: "pending (timers_after h effects) =
      filter (\<lambda>t. timer_handle t \<notin> set (held_handles (intervals b)) \<and>
                   timer_callback t \<noteq> Call_pollMessages) (pending h) @
      [\<lparr>timer_handle = next_handle h + 4, timer_callback = Call_pollMessages,
        timer_ms = 300000, timer_repeats = False\<rparr>]"
    unfolding eff clearIntervals_held by (rule timers_after_five) (rule host_farewell)
  show ?thesis
    using p5 eff stop tm by (simp add: b')
qed


lemmas bot_eval = pollMessages_def getChatMessages_def handleError_def gracefulShutdown_def
  clearIntervals_def List.map_filter_def truthy_def transient_def attached_bot_def new_bot_def
  initializeState_def MIN_POLL_INTERVAL_def MAX_BACKOFF_def FAREWELL_def
  start_timers_def constructed_timers_def setInterval_def STREAM_CHECK_def CONTEXT_CLEANUP_def

lemmas host_eval = started_timers_def start_timers_def constructed_timers_def setInterval_def
  setTimeout_def clearInterval_def fire_pollMessages_def timers_after_def held_handles_def
  List.map_filter_def STREAM_CHECK_def CONTEXT_CLEANUP_def Let_def

text \<open>
  Claim C4, as stated, fails at \<open>n = 0\<close>: the first failure schedules the retry after
  24000 ms, where \<open>min (12000 * 2 ^ 0) 300000\<close> is 12000.
\<close>

theorem backoff_exponent_counterexample:
  "isRunning (state attached_bot) \<and> consecutiveErrors (state attached_bot) = 0 \<and>
   transient ''socket hang up'' \<and>
   snd (pollMessages utc_zone 1700000001000 (Failed ''socket hang up'') attached_bot) =
     [SetTimeout_pollMessages 24000] \<and>
   min (MIN_POLL_INTERVAL * 2 ^ 0) MAX_BACKOFF = 12000"
  by (simp add: bot_eval quota_eval)

theorem backoff_schedule_witness:
  "isRunning (state attached_bot) \<and> truthy (liveChatId (state attached_bot)) \<and>
   fst (canMakeApiCall utc_zone (quotaManager attached_bot) ''CHAT_LIST'' 1700000001000) \<and>
   transient ''socket hang up'' \<and> consecutiveErrors (state attached_bot) = 0 \<and>
   consecutiveErrors (state (fst (pollMessages utc_zone 1700000001000 (Failed ''socket hang up'') attached_bot))) = 1 \<and>
   filter is_poll_timer (snd (pollMessages utc_zone 1700000001000 (Failed ''socket hang up'') attached_bot)) =
     [SetTimeout_pollMessages 24000]"
proof -
  have h: "isRunning (state attached_bot)" "truthy (liveChatId (state attached_bot))"
    "fst (canMakeApiCall utc_zone (quotaManager attached_bot) ''CHAT_LIST'' 1700000001000)"
    "transient ''socket hang up''" "consecutiveErrors (state attached_bot) = 0"
    by (simp_all add: bot_eval quota_eval)
  from backoff_schedule [OF h] h show ?thesis
    by (simp add: MIN_POLL_INTERVAL_def MAX_BACKOFF_def)
qed

theorem quota_pause_preserves_session_witness:
  "isRunning (state (attached_bot\<lparr>quotaManager :=
      \<lparr>dailyQuotaUsed = 8996, quotaResetTime = 1700006400000, quotaHistory = []\<rparr>\<rparr>)) \<and>
   truthy (liveChatId (state (attached_bot\<lparr>quotaManager :=
      \<lparr>dailyQuotaUsed = 8996, quotaResetTime = 1700006400000, quotaHistory = []\<rparr>\<rparr>))) \<and>
   \<not> fst (canMakeApiCall utc_zone (quotaManager (attached_bot\<lparr>quotaManager :=
      \<lparr>dailyQuotaUsed = 8996, quotaResetTime = 1700006400000, quotaHistory = []\<rparr>\<rparr>))
      ''CHAT_LIST'' 1700000001000) \<and>
   pollMessages utc_zone 1700000001000 (Fetched [''hello''] None None) (attached_bot\<lparr>quotaManager :=
      \<lparr>dailyQuotaUsed = 8996, quotaResetTime = 1700006400000, quotaHistory = []\<rparr>\<rparr>) =
     (attached_bot\<lparr>quotaManager :=
        \<lparr>dailyQuotaUsed = 8996, quotaResetTime = 1700006400000, quotaHistory = []\<rparr>\<rparr>,
      [SetTimeout_pollMessages 60000])"
proof -
  let ?b = "attached_bot\<lparr>quotaManager :=
      \<lparr>dailyQuotaUsed = 8996, quotaResetTime = 1700006400000, quotaHistory = []\<rparr>\<rparr>"
  have h: "isRunning (state ?b)" "truthy (liveChatId (state ?b))"
    "\<not> fst (canMakeApiCall utc_zone (quotaManager ?b) ''CHAT_LIST'' 1700000001000)"
    by (simp_all add: bot_eval quota_eval)
  have q: "snd (canMakeApiCall utc_zone (quotaManager ?b) ''CHAT_LIST'' 1700000001000) =
      \<lparr>dailyQuotaUsed = 8996, quotaResetTime = 1700006400000, quotaHistory = []\<rparr>"
    by (simp add: quota_eval)
  from quota_pause_preserves_session [OF h, of "Fetched [''hello''] None None"] h q
  show ?thesis by (simp add: prod_eq_iff)
qed

lemma five_failures_effects:
  "snd (poll_run utc_zone attached_bot five_failures) =
     [[SetTimeout_pollMessages 24000], [SetTimeout_pollMessages 48000],
      [SetTimeout_pollMessages 96000], [SetTimeout_pollMessages 192000],
      [ClearInterval 4, ClearInterval 5, Insert_message ''chat-1'' FAREWELL,
       SetTimeout_pollMessages 300000]]"
  by (simp add: five_failures_def bot_eval quota_eval)

text \<open>
  Claim C8, as stated, fails on its last two parts. The host's table holds five timers
  when the bot is attached. In the fifth failing cycle the two whose handles the bot holds
  are cleared before the farewell, and a poll retry is scheduled after shutdown has begun,
  behind the farewell. After the cycle the cleanup timer of the rate limiter, the reset
  check of the quota manager and the keep-alive ping are still pending, and so is the
  poll retry.
\<close>

theorem shutdown_leaves_timers_counterexample:
  "isRunning (state attached_bot) \<and> maxConsecutiveErrors (state attached_bot) = 5 \<and>
   \<not> isRunning (state (fst (poll_run utc_zone attached_bot five_failures))) \<and>
   last (snd (poll_run utc_zone attached_bot five_failures)) =
     [ClearInterval 4, ClearInterval 5, Insert_message ''chat-1'' FAREWELL,
      SetTimeout_pollMessages 300000] \<and>
   map timer_callback (pending started_timers) =
     [Call_rateLimiter_cleanup, Call_checkQuotaReset, Call_keepAlive_ping, Call_streamCheck,
      Call_cleanupContext] \<and>
   map timer_callback
     (pending (timers_after started_timers (snd (poll_run utc_zone attached_bot five_failures)))) =
     [Call_rateLimiter_cleanup, Call_checkQuotaReset, Call_keepAlive_ping, Call_pollMessages]"
proof -
  have "\<not> isRunning (state (fst (poll_run utc_zone attached_bot five_failures)))"
    by (simp add: five_failures_def bot_eval quota_eval)
  moreover have "isRunning (state attached_bot) \<and> maxConsecutiveErrors (state attached_bot) = 5"
    by (simp add: bot_eval)
  ultimately show ?thesis
    by (simp add: five_failures_effects host_eval)
qed

theorem five_failures_stop_witness:
  "isRunning (state attached_bot) \<and> truthy (liveChatId (state attached_bot)) \<and>
   consecutiveErrors (state attached_bot) = 0 \<and> maxConsecutiveErrors (state attached_bot) = 5 \<and>
   dailyQuotaUsed (quotaManager attached_bot) = 0 \<and>
   transient ''socket hang up'' \<and> transient ''ECONNRESET'' \<and> transient ''Backend Error'' \<and>
   transient ''Service Unavailable'' \<and>
   consecutiveErrors (state (fst (poll_run utc_zone attached_bot five_failures))) = 5 \<and>
   \<not> isRunning (state (fst (poll_run utc_zone attached_bot five_failures))) \<and>
   pollMessages utc_zone 1700000661000 (Fetched [] None None) (fst (poll_run utc_zone attached_bot five_failures)) =
     (fst (poll_run utc_zone attached_bot five_failures), []) \<and>
   map timer_handle
     (pending (timers_after started_timers (snd (poll_run utc_zone attached_bot five_failures)))) =
     [1, 2, 3, 10]"
proof -
  have h: "isRunning (state attached_bot)" "truthy (liveChatId (state attached_bot))"
    "consecutiveErrors (state attached_bot) = 0" "maxConsecutiveErrors (state attached_bot) = 5"
    "0 \<le> dailyQuotaUsed (quotaManager attached_bot)" "dailyQuotaUsed (quotaManager attached_bot) \<le> 8995"
    "transient ''socket hang up''" "transient ''ECONNRESET''" "transient ''Backend Error''"
    "transient ''socket hang up''" "transient ''Service Unavailable''"
    by (simp_all add: bot_eval quota_eval)
  have u: "dailyQuotaUsed (quotaManager attached_bot) = 0"
    by (simp add: bot_eval quota_eval)
  have i: "held_handles (intervals attached_bot) = [4, 5]"
    by (simp add: bot_eval host_eval)
  have p: "started_timers =
      \<lparr>next_handle = 6,
       pending =
         [\<lparr>timer_handle = 1, timer_callback = Call_rateLimiter_cleanup, timer_ms = 300000,
           timer_repeats = True\<rparr>,
          \<lparr>timer_handle = 2, timer_callback = Call_checkQuotaReset, timer_ms = 3600000,
           timer_repeats = True\<rparr>,
          \<lparr>timer_handle = 3, timer_callback = Call_keepAlive_ping, timer_ms = 1500000,
           timer_repeats = True\<rparr>,
          \<lparr>timer_handle = 4, timer_callback = Call_streamCheck, timer_ms = 2700000,
           timer_repeats = True\<rparr>,
          \<lparr>timer_handle = 5, timer_callback = Call_cleanupContext, timer_ms = 1800000,
           timer_repeats = True\<rparr>]\<rparr>"
    by (simp add: host_eval)
  have r: "poll_run utc_zone attached_bot
      [(1700000001000, Failed ''socket hang up''), (1700000025000, Failed ''ECONNRESET''),
       (1700000073000, Failed ''Backend Error''), (1700000169000, Failed ''socket hang up''),
       (1700000361000, Failed ''Service Unavailable'')] =
     (fst (poll_run utc_zone attached_bot five_failures), snd (poll_run utc_zone attached_bot five_failures))"
    by (simp add: five_failures_def)
  note th = five_failures_stop [OF h r, of 1700000661000 "Fetched [] None None" started_timers]
  from th have a: "consecutiveErrors (state (fst (poll_run utc_zone attached_bot five_failures))) = 5"
    "\<not> isRunning (state (fst (poll_run utc_zone attached_bot five_failures)))"
    by blast+
  from th have b: "pollMessages utc_zone 1700000661000 (Fetched [] None None)
      (fst (poll_run utc_zone attached_bot five_failures)) =
      (fst (poll_run utc_zone attached_bot five_failures), [])"
    by blast
  from th have c: "pending (timers_after started_timers (snd (poll_run utc_zone attached_bot five_failures))) =
      filter (\<lambda>t. timer_handle t \<notin> set (held_handles (intervals attached_bot)) \<and>
                   timer_callback t \<noteq> Call_pollMessages) (pending started_timers) @
      [\<lparr>timer_handle = next_handle started_timers + 4, timer_callback = Call_pollMessages,
        timer_ms = 300000, timer_repeats = False\<rparr>]"
    by blast
  have c': "map timer_handle
      (pending (timers_after started_timers (snd (poll_run utc_zone attached_bot five_failures)))) =
      [1, 2, 3, 10]"
    unfolding c by (simp add: i p)
  show ?thesis
    by (intro conjI) (fact h u a b c')+
qed

end
